theory Spec2Isabelle
  imports Main
begin

section \<open>JavaScript strings and the regular expressions the editor uses\<close>

text \<open>
  A JavaScript string is modelled as a \<^typ>\<open>string\<close>: the list of its code units, here
  those below 256. The editor's code looks at code units only through literal ASCII
  characters, through \<open>.\<close> (anything but a line terminator), through \<open>\s\<close> and through
  \<open>trim()\<close>; the classes below are those of ECMAScript on this range.
\<close>

definition isLineTerminator :: "char \<Rightarrow> bool" where
  "isLineTerminator c = (c = CHR 0x0A \<or> c = CHR 0x0D)"

definition isWhiteSpace :: "char \<Rightarrow> bool" where
  "isWhiteSpace c =
     (c = CHR 0x09 \<or> c = CHR 0x0A \<or> c = CHR 0x0B \<or> c = CHR 0x0C \<or> c = CHR 0x0D
      \<or> c = CHR 0x20 \<or> c = CHR 0xA0)"

text \<open>\<open>String.prototype.trim\<close>: white space and line terminators go, at both ends.\<close>

definition trim :: "string \<Rightarrow> string" where
  "trim s = rev (dropWhile isWhiteSpace (rev (dropWhile isWhiteSpace s)))"

text \<open>
  The patterns of the source are sequences of literal characters, of one-character
  classes under \<open>*\<close>, \<open>*?\<close>, \<open>+\<close> or \<open>?\<close>, of the line anchors \<open>^\<close> and \<open>$\<close> (always
  with the \<open>m\<close> flag there) and of capture groups that hold such a sequence. A pattern is
  the list of these items; \<open>GroupOpen\<close> and \<open>GroupClose\<close> stand for the parentheses.
  The \<open>i\<close> flag of the Markdown patterns changes nothing: none of them has a letter.
\<close>

datatype cls =
    Dot             \<comment> \<open>\<open>.\<close>\<close>
  | DotAll          \<comment> \<open>\<open>.\<close> under the \<open>s\<close> flag\<close>
  | NotChar char    \<comment> \<open>\<open>[^c]\<close>\<close>
  | WhiteSp         \<comment> \<open>\<open>\s\<close>\<close>

datatype quant = Greedy | Lazy

datatype item =
    Lit char
  | Star cls quant  \<comment> \<open>\<open>c*\<close> and \<open>c*?\<close>\<close>
  | Plus cls        \<comment> \<open>\<open>c+\<close>\<close>
  | Opt char        \<comment> \<open>\<open>x?\<close>\<close>
  | GroupOpen
  | GroupClose
  | Bol             \<comment> \<open>\<open>^\<close> with the \<open>m\<close> flag\<close>
  | Eol             \<comment> \<open>\<open>$\<close> with the \<open>m\<close> flag\<close>

type_synonym regex = "item list"

definition lit :: "string \<Rightarrow> regex" where
  "lit s = map Lit s"

fun inCls :: "cls \<Rightarrow> char \<Rightarrow> bool" where
  "inCls Dot x = (\<not> isLineTerminator x)"
| "inCls DotAll x = True"
| "inCls (NotChar c) x = (x \<noteq> c)"
| "inCls WhiteSp x = isWhiteSpace x"

text \<open>
  \<open>^\<close> holds at the start of the input and after a line terminator; the matcher is
  given the character before the current position, if there is one. \<open>$\<close> holds at the
  end of the input and before a line terminator.
\<close>

fun atLineStart :: "char option \<Rightarrow> bool" where
  "atLineStart None = True"
| "atLineStart (Some c) = isLineTerminator c"

fun atLineEnd :: "string \<Rightarrow> bool" where
  "atLineEnd [] = True"
| "atLineEnd (x # xs) = isLineTerminator x"

text \<open>
  The backtracking matcher of ECMAScript, for these patterns: \<open>mat r p i s ms\<close> matches
  the pattern \<open>r\<close> at the head of \<open>s\<close>, where \<open>p\<close> is the character before, \<open>i\<close> the
  number of characters matched so far and \<open>ms\<close> the positions of the group parentheses
  passed so far. It returns the length of the match and those positions, or \<open>None\<close>.
  A greedy star tries the longest run first and gives characters back one by one; a lazy
  star tries the rest of the pattern first and takes one more character when that fails.
\<close>

fun mat :: "regex \<Rightarrow> char option \<Rightarrow> nat \<Rightarrow> string \<Rightarrow> nat list \<Rightarrow> (nat \<times> nat list) option" where
  "mat [] p i s ms = Some (i, ms)"
| "mat (Lit c # r) p i [] ms = None"
| "mat (Lit c # r) p i (x # xs) ms = (if x = c then mat r (Some x) (Suc i) xs ms else None)"
| "mat (GroupOpen # r) p i s ms = mat r p i s (ms @ [i])"
| "mat (GroupClose # r) p i s ms = mat r p i s (ms @ [i])"
| "mat (Bol # r) p i s ms = (if atLineStart p then mat r p i s ms else None)"
| "mat (Eol # r) p i s ms = (if atLineEnd s then mat r p i s ms else None)"
| "mat (Star c Greedy # r) p i [] ms = mat r p i [] ms"
| "mat (Star c Greedy # r) p i (x # xs) ms =
     (if inCls c x then
        (case mat (Star c Greedy # r) (Some x) (Suc i) xs ms of
           Some res \<Rightarrow> Some res
         | None \<Rightarrow> mat r p i (x # xs) ms)
      else mat r p i (x # xs) ms)"
| "mat (Star c Lazy # r) p i [] ms = mat r p i [] ms"
| "mat (Star c Lazy # r) p i (x # xs) ms =
     (case mat r p i (x # xs) ms of
        Some res \<Rightarrow> Some res
      | None \<Rightarrow> (if inCls c x then mat (Star c Lazy # r) (Some x) (Suc i) xs ms else None))"
| "mat (Plus c # r) p i [] ms = None"
| "mat (Plus c # r) p i (x # xs) ms =
     (if inCls c x then mat (Star c Greedy # r) (Some x) (Suc i) xs ms else None)"
| "mat (Opt c # r) p i [] ms = mat r p i [] ms"
| "mat (Opt c # r) p i (x # xs) ms =
     (if x = c then
        (case mat r (Some x) (Suc i) xs ms of
           Some res \<Rightarrow> Some res
         | None \<Rightarrow> mat r p i (x # xs) ms)
      else mat r p i (x # xs) ms)"

text \<open>
  A replacement string is a list of literal pieces and group references (\<open>$1\<close>, \<open>$2\<close>).
  Group \<open>n\<close> is the text between the parentheses \<open>2n - 2\<close> and \<open>2n - 1\<close> of the match.
\<close>

datatype rpart = Txt string | Grp nat

fun group :: "string \<Rightarrow> nat list \<Rightarrow> nat \<Rightarrow> string" where
  "group s ms n =
     (if 0 < n \<and> 2 * n \<le> length ms
      then take (ms ! (2 * n - 1) - ms ! (2 * n - 2)) (drop (ms ! (2 * n - 2)) s)
      else [])"

fun expand :: "rpart list \<Rightarrow> string \<Rightarrow> nat list \<Rightarrow> string" where
  "expand [] s ms = []"
| "expand (Txt t # rp) s ms = t @ expand rp s ms"
| "expand (Grp n # rp) s ms = group s ms n @ expand rp s ms"

text \<open>
  \<open>s.replace(re, rp)\<close> without the \<open>g\<close> flag: the leftmost match is replaced, the rest
  of the string is kept; a string without a match is returned as it is.
\<close>

fun replaceFirstFrom :: "regex \<Rightarrow> rpart list \<Rightarrow> char option \<Rightarrow> string \<Rightarrow> string" where
  "replaceFirstFrom re rp p [] =
     (case mat re p 0 [] [] of Some (e, ms) \<Rightarrow> expand rp [] ms | None \<Rightarrow> [])"
| "replaceFirstFrom re rp p (x # xs) =
     (case mat re p 0 (x # xs) [] of
        Some (e, ms) \<Rightarrow> expand rp (x # xs) ms @ drop e (x # xs)
      | None \<Rightarrow> x # replaceFirstFrom re rp (Some x) xs)"

definition replaceFirst :: "regex \<Rightarrow> rpart list \<Rightarrow> string \<Rightarrow> string" where
  "replaceFirst re rp s = replaceFirstFrom re rp None s"

text \<open>
  With the \<open>g\<close> flag every match is replaced, from left to right, each search starting
  where the last match ended; after an empty match the next character is copied and
  the search goes on behind it.
\<close>

function replaceAllFrom :: "regex \<Rightarrow> rpart list \<Rightarrow> char option \<Rightarrow> string \<Rightarrow> string" where
  "replaceAllFrom re rp p [] =
     (case mat re p 0 [] [] of Some (e, ms) \<Rightarrow> expand rp [] ms | None \<Rightarrow> [])"
| "replaceAllFrom re rp p (x # xs) =
     (case mat re p 0 (x # xs) [] of
        Some (e, ms) \<Rightarrow>
          (if e = 0 then expand rp (x # xs) ms @ x # replaceAllFrom re rp (Some x) xs
           else expand rp (x # xs) ms
                @ replaceAllFrom re rp (Some ((x # xs) ! (e - 1))) (drop (e - 1) xs))
      | None \<Rightarrow> x # replaceAllFrom re rp (Some x) xs)"
  by pat_completeness auto
termination
  by (relation "measure (\<lambda>(re, rp, p, s). length s)") auto

definition replaceAll :: "regex \<Rightarrow> rpart list \<Rightarrow> string \<Rightarrow> string" where
  "replaceAll re rp s = replaceAllFrom re rp None s"

section \<open>The Markdown codec (components/RichTextEditor.tsx)\<close>

text \<open>The placeholder element the host page shows in an empty editor.\<close>

definition placeholderOpen :: string where
  "placeholderOpen = ''<div class=\"placeholder\">''"

definition placeholderClose :: string where
  "placeholderClose = ''</div>''"

definition placeholderRe :: regex where
  "placeholderRe = lit placeholderOpen @ [Star Dot Lazy] @ lit placeholderClose"

definition stripPlaceholder :: "string \<Rightarrow> string" where
  "stripPlaceholder html = replaceFirst placeholderRe [] html"

text \<open>\<open>/<TAG[^>]*>(.*?)<\/TAG>/\<close>, the shape of the heading and inline-mark patterns.\<close>

definition elementRe :: "string \<Rightarrow> regex" where
  "elementRe tag =
     lit ''<'' @ lit tag @ [Star (NotChar (CHR ''>'')) Greedy] @ lit ''>''
     @ [GroupOpen, Star Dot Lazy, GroupClose] @ lit ''</'' @ lit tag @ lit ''>''"

text \<open>\<open>/<TAG>(.*?)<\/TAG>/\<close>, with \<open>.\<close> as the flag \<open>s\<close> makes it for \<open>ul\<close> and \<open>ol\<close>.\<close>

definition plainElementRe :: "string \<Rightarrow> cls \<Rightarrow> regex" where
  "plainElementRe tag dot =
     lit ''<'' @ lit tag @ lit ''>'' @ [GroupOpen, Star dot Lazy, GroupClose]
     @ lit ''</'' @ lit tag @ lit ''>''"

definition anchorRe :: regex where
  "anchorRe =
     lit ''<a href=\"'' @ [GroupOpen, Star (NotChar (CHR ''\"'')) Greedy, GroupClose]
     @ lit ''\"'' @ [Star (NotChar (CHR ''>'')) Greedy] @ lit ''>''
     @ [GroupOpen, Star Dot Lazy, GroupClose] @ lit ''</a>''"

definition brRe :: regex where
  "brRe = lit ''<br'' @ [Star WhiteSp Greedy, Opt (CHR ''/'')] @ lit ''>''"

definition tagRe :: regex where
  "tagRe = lit ''<'' @ [Star (NotChar (CHR ''>'')) Greedy] @ lit ''>''"

text \<open>\<open>text.replace(/<[^>]*>/g, '')\<close>, as the HTML source view derives its plain text.\<close>

definition stripTags :: "string \<Rightarrow> string" where
  "stripTags text = replaceAll tagRe [] text"

definition convertHTMLToMarkdown :: "string \<Rightarrow> string" where
  "convertHTMLToMarkdown html =
     (let cleanHtml = replaceFirst placeholderRe [] html;
          s1 = replaceAll (elementRe ''h1'') [Txt ''# '', Grp 1, Txt ''\<newline>''] cleanHtml;
          s2 = replaceAll (elementRe ''h2'') [Txt ''## '', Grp 1, Txt ''\<newline>''] s1;
          s3 = replaceAll (elementRe ''h3'') [Txt ''### '', Grp 1, Txt ''\<newline>''] s2;
          s4 = replaceAll (elementRe ''strong'') [Txt ''**'', Grp 1, Txt ''**''] s3;
          s5 = replaceAll (elementRe ''b'') [Txt ''**'', Grp 1, Txt ''**''] s4;
          s6 = replaceAll (elementRe ''em'') [Txt ''*'', Grp 1, Txt ''*''] s5;
          s7 = replaceAll (elementRe ''i'') [Txt ''*'', Grp 1, Txt ''*''] s6;
          s8 = replaceAll anchorRe [Txt ''['', Grp 2, Txt ''](''  , Grp 1, Txt '')''] s7;
          s9 = replaceAll (plainElementRe ''ul'' DotAll) [Grp 1] s8;
          s10 = replaceAll (plainElementRe ''ol'' DotAll) [Grp 1] s9;
          s11 = replaceAll (plainElementRe ''li'' Dot) [Txt ''- '', Grp 1, Txt ''\<newline>''] s10;
          s12 = replaceAll (plainElementRe ''p'' Dot) [Grp 1, Txt ''\<newline>''] s11;
          s13 = replaceAll brRe [Txt ''\<newline>''] s12;
          s14 = replaceAll tagRe [] s13;
          s15 = replaceAll (lit ''&nbsp;'') [Txt '' ''] s14;
          s16 = replaceAll (lit ''&amp;'') [Txt ''&''] s15;
          s17 = replaceAll (lit ''&lt;'') [Txt ''<''] s16;
          s18 = replaceAll (lit ''&gt;'') [Txt ''>''] s17
      in trim s18)"

text \<open>\<open>/^PREFIX (.*$)/gim\<close>, the shape of the heading and list-item patterns.\<close>

definition lineRe :: "string \<Rightarrow> regex" where
  "lineRe prefix = [Bol] @ lit prefix @ lit '' '' @ [GroupOpen, Star Dot Greedy, Eol, GroupClose]"

definition strongRe :: regex where
  "strongRe = lit ''**'' @ [GroupOpen, Star Dot Greedy, GroupClose] @ lit ''**''"

definition emRe :: regex where
  "emRe = lit ''*'' @ [GroupOpen, Star Dot Greedy, GroupClose] @ lit ''*''"

definition linkRe :: regex where
  "linkRe =
     lit ''['' @ [GroupOpen, Star Dot Lazy, GroupClose] @ lit ''](''
     @ [GroupOpen, Star Dot Lazy, GroupClose] @ lit '')''"

definition convertMarkdownToHTML :: "string \<Rightarrow> string" where
  "convertMarkdownToHTML markdown =
     (if trim markdown = [] then []
      else
        let s1 = replaceAll (lineRe ''#'') [Txt ''<h1>'', Grp 1, Txt ''</h1>''] markdown;
            s2 = replaceAll (lineRe ''##'') [Txt ''<h2>'', Grp 1, Txt ''</h2>''] s1;
            s3 = replaceAll (lineRe ''###'') [Txt ''<h3>'', Grp 1, Txt ''</h3>''] s2;
            s4 = replaceAll strongRe [Txt ''<strong>'', Grp 1, Txt ''</strong>''] s3;
            s5 = replaceAll emRe [Txt ''<em>'', Grp 1, Txt ''</em>''] s4;
            s6 = replaceAll linkRe [Txt ''<a href=\"'', Grp 2, Txt ''\">'', Grp 1, Txt ''</a>''] s5;
            s7 = replaceAll (lineRe ''-'') [Txt ''<ul><li>'', Grp 1, Txt ''</li></ul>''] s6;
            s8 = replaceAll (lit ''\<newline><ul>'') [Txt ''</li><li>''] s7;
            s9 = replaceAll (lit ''</ul>\<newline><ul>'') [] s8;
            s10 = replaceAll (lit ''</ul>'') [] s9;
            s11 = replaceAll (lit ''\<newline>'') [Txt ''<br>''] s10
        in s11)"

section \<open>The editor component (components/RichTextEditor.tsx)\<close>

datatype ViewMode = Wysiwyg | Html | Markdown | Preview

text \<open>
  The component's state: its \<open>useState\<close> cells, and whether \<open>webViewRef.current\<close> is
  set (the WebView is mounted).
\<close>

record EditorState =
  editorReady :: bool
  content :: string
  viewMode :: ViewMode
  htmlContent :: string
  markdownContent :: string
  lastWysiwygContent :: string
  webViewRef :: bool

text \<open>
  The scripts the component injects into the page. \<open>SetContent e\<close> is
  \<^verbatim>\<open>window.editorFunctions.setContent(`e`)\<close>, with \<open>e\<close> the text between the backticks;
  \<open>PostContentChange\<close> posts a \<open>contentChange\<close> message with the page's content and text.
\<close>

datatype script =
    SetContent string
  | PostContentChange
  | PostGetContentResponse
  | PostGetTextResponse
  | ClearContent

text \<open>What a handler does besides updating the state: scripts injected, callbacks called.\<close>

datatype effect =
    InjectJavaScript script
  | OnChange string string
  | OnEditorReady

text \<open>The messages of the page, as \<open>handleWebViewMessage\<close> tells them apart.\<close>

datatype message =
    EditorReadyMsg
  | ContentChangeMsg string string
  | OtherMsg
  | MalformedMsg

definition backslash :: char where
  "backslash = CHR 0x5C"

definition backtick :: char where
  "backtick = CHR 0x60"

text \<open>
  \<^verbatim>\<open>html.replace(/`/g, '\\`').replace(/\$/g, '\\$')\<close>: what is done to a string
  before it is put between the backticks of an injected script.
\<close>

definition escapeTemplate :: "string \<Rightarrow> string" where
  "escapeTemplate html =
     replaceAll [Lit (CHR ''$'')] [Txt [backslash, CHR ''$'']]
       (replaceAll [Lit backtick] [Txt [backslash, backtick]] html)"

text \<open>\<open>webViewRef.current?.injectJavaScript(js)\<close>: nothing happens without a WebView.\<close>

definition injectJavaScript :: "EditorState \<Rightarrow> script \<Rightarrow> effect list" where
  "injectJavaScript s js = (if webViewRef s then [InjectJavaScript js] else [])"

text \<open>The effect of lines 93-102, run after a render in which the view mode or the
  readiness changed.\<close>

definition syncEffect :: "EditorState \<Rightarrow> effect list" where
  "syncEffect s =
     (if viewMode s = Wysiwyg \<and> editorReady s \<and> lastWysiwygContent s \<noteq> []
      then injectJavaScript s (SetContent (escapeTemplate (lastWysiwygContent s)))
      else [])"

text \<open>The methods of the imperative handle.\<close>

definition setContent :: "EditorState \<Rightarrow> string \<Rightarrow> EditorState \<times> effect list" where
  "setContent s html =
     (s\<lparr>content := html, htmlContent := html,
        markdownContent := convertHTMLToMarkdown html, lastWysiwygContent := html\<rparr>,
      if editorReady s then injectJavaScript s (SetContent (escapeTemplate html)) else [])"


fun handleWebViewMessage :: "EditorState \<Rightarrow> message \<Rightarrow> EditorState \<times> effect list" where
  "handleWebViewMessage s EditorReadyMsg =
     (s\<lparr>editorReady := True\<rparr>,
      OnEditorReady #
        (if content s \<noteq> [] then injectJavaScript s (SetContent (escapeTemplate (content s)))
         else []))"
| "handleWebViewMessage s (ContentChangeMsg c t) =
     (let cleanContent = replaceFirst placeholderRe [] c
      in (s\<lparr>content := cleanContent, htmlContent := cleanContent,
             markdownContent := convertHTMLToMarkdown cleanContent,
             lastWysiwygContent := cleanContent\<rparr>,
          [OnChange cleanContent t]))"
| "handleWebViewMessage s OtherMsg = (s, [])"
| "handleWebViewMessage s MalformedMsg = (s, [])"

definition handleViewModeChange :: "EditorState \<Rightarrow> ViewMode \<Rightarrow> EditorState \<times> effect list" where
  "handleViewModeChange s newViewMode =
     (if viewMode s = Wysiwyg \<and> newViewMode \<noteq> Wysiwyg then
        (s\<lparr>viewMode := newViewMode\<rparr>, injectJavaScript s PostContentChange)
      else if viewMode s = Html \<and> newViewMode = Wysiwyg then
        (s\<lparr>lastWysiwygContent := htmlContent s, viewMode := newViewMode\<rparr>,
         injectJavaScript s (SetContent (escapeTemplate (htmlContent s))))
      else if viewMode s = Markdown \<and> newViewMode = Wysiwyg then
        (let htmlFromMarkdown = convertMarkdownToHTML (markdownContent s)
         in (s\<lparr>lastWysiwygContent := htmlFromMarkdown, viewMode := newViewMode\<rparr>,
             injectJavaScript s (SetContent (escapeTemplate htmlFromMarkdown))))
      else (s\<lparr>viewMode := newViewMode\<rparr>, []))"

text \<open>The \<open>onChangeText\<close> handlers of the HTML and the Markdown source views.\<close>

definition htmlOnChangeText :: "EditorState \<Rightarrow> string \<Rightarrow> EditorState \<times> effect list" where
  "htmlOnChangeText s text =
     (s\<lparr>htmlContent := text, content := text\<rparr>, [OnChange text (stripTags text)])"

definition markdownOnChangeText :: "EditorState \<Rightarrow> string \<Rightarrow> EditorState \<times> effect list" where
  "markdownOnChangeText s text =
     (let html = convertMarkdownToHTML text
      in (s\<lparr>markdownContent := text, content := html\<rparr>, [OnChange html text]))"

text \<open>The WebView is part of the rendered tree in the rich view only.\<close>

definition render :: "EditorState \<Rightarrow> EditorState" where
  "render s = s\<lparr>webViewRef := (viewMode s = Wysiwyg)\<rparr>"

section \<open>The page inside the WebView (the script of \<open>editorHTML\<close>)\<close>

text \<open>
  The page keeps the editor element's \<open>innerHTML\<close> and the flag \<open>isContentSet\<close>. Writing
  \<open>innerHTML\<close> is modelled as storing the string: the browser's parsing and
  re-serialising of the markup is not modelled. The placeholder text \<open>ph\<close> is the value
  of the string literal in the page's script, into which the component writes its prop
  \<open>placeholder\<close>: a prop with the two characters \<open>\n\<close> gives a text with a line break.
\<close>

record Host =
  innerHTML :: string
  isContentSet :: bool

definition freshHost :: Host where
  "freshHost = \<lparr>innerHTML = [], isContentSet = False\<rparr>"

definition placeholderDiv :: "string \<Rightarrow> string" where
  "placeholderDiv text = placeholderOpen @ text @ placeholderClose"

definition setPlaceholder :: "string \<Rightarrow> Host \<Rightarrow> Host" where
  "setPlaceholder text h =
     (if trim (innerHTML h) = [] \<and> \<not> isContentSet h
      then h\<lparr>innerHTML := placeholderDiv text\<rparr> else h)"

text \<open>\<open>updateContent\<close> posts the content and the text the browser derives from it
  (\<open>innerText\<close>, a parameter \<open>txt\<close> here).\<close>

definition updateContent :: "(string \<Rightarrow> string) \<Rightarrow> Host \<Rightarrow> message" where
  "updateContent txt h = ContentChangeMsg (innerHTML h) (txt (innerHTML h))"

definition hostInit :: "string \<Rightarrow> Host \<Rightarrow> Host \<times> message list" where
  "hostInit ph h = (setPlaceholder ph h, [EditorReadyMsg])"

definition hostSetContent :: "string \<Rightarrow> (string \<Rightarrow> string) \<Rightarrow> Host \<Rightarrow> string \<Rightarrow> Host \<times> message list" where
  "hostSetContent ph txt h html =
     (let h' = (if html \<noteq> [] \<and> trim html \<noteq> []
                then h\<lparr>innerHTML := html, isContentSet := True\<rparr>
                else setPlaceholder ph h)
      in (h', [updateContent txt h']))"

definition hostClearContent :: "string \<Rightarrow> (string \<Rightarrow> string) \<Rightarrow> Host \<Rightarrow> Host \<times> message list" where
  "hostClearContent ph txt h =
     (let h' = setPlaceholder ph (h\<lparr>innerHTML := [], isContentSet := False\<rparr>)
      in (h', [updateContent txt h']))"

text \<open>
  The value of the template literal that an injected script holds, from the text between
  its backticks (ECMAScript's cooked template value). A backslash starts an escape;
  CR and CR LF become LF. The text is not such a literal when an escape is an error
  (a digit, a bad hexadecimal or Unicode escape) or the text ends in a backslash: the
  script is then a syntax error and does not run (\<open>SyntaxError\<close>). The model does not
  say what the page does (\<open>NotModelled\<close>) when the text holds a backtick or a \<open>${\<close>
  that no backslash escapes, so that what follows is run as code, when an escape is
  written \<open>\u{...}\<close>, or when an escape denotes a code unit of 256 or more.
\<close>

datatype cooked = Cooked string | SyntaxError | NotModelled

fun consCooked :: "char \<Rightarrow> cooked \<Rightarrow> cooked" where
  "consCooked c (Cooked s) = Cooked (c # s)"
| "consCooked c SyntaxError = SyntaxError"
| "consCooked c NotModelled = NotModelled"

definition isDigit :: "char \<Rightarrow> bool" where
  "isDigit c = (c \<in> set ''0123456789'')"

definition hexVal :: "char \<Rightarrow> nat option" where
  "hexVal c =
     (if isDigit c then Some (of_char c - 48)
      else if c \<in> set ''abcdef'' then Some (of_char c - 87)
      else if c \<in> set ''ABCDEF'' then Some (of_char c - 55)
      else None)"

text \<open>The value of the hexadecimal digits \<open>ds\<close>, when they all are such digits.\<close>

fun hexNumber :: "nat \<Rightarrow> string \<Rightarrow> nat option" where
  "hexNumber acc [] = Some acc"
| "hexNumber acc (d # ds) =
     (case hexVal d of None \<Rightarrow> None | Some v \<Rightarrow> hexNumber (16 * acc + v) ds)"

definition escapeValue :: "char \<Rightarrow> char option" where
  "escapeValue d =
     (if d = CHR ''n'' then Some (CHR 0x0A)
      else if d = CHR ''t'' then Some (CHR 0x09)
      else if d = CHR ''r'' then Some (CHR 0x0D)
      else if d = CHR ''b'' then Some (CHR 0x08)
      else if d = CHR ''f'' then Some (CHR 0x0C)
      else if d = CHR ''v'' then Some (CHR 0x0B)
      else if isDigit d then None
      else Some d)"

function cookTemplate :: "string \<Rightarrow> cooked" where
  "cookTemplate [] = Cooked []"
| "cookTemplate [c] =
     (if c = backslash then SyntaxError
      else if c = backtick then NotModelled
      else if c = CHR 0x0D then Cooked [CHR 0x0A]
      else Cooked [c])"
| "cookTemplate (c # d # r) =
     (if c = backslash then
        (if d = CHR 0x0A then cookTemplate r
         else if d = CHR 0x0D then
           (if take 1 r = [CHR 0x0A] then cookTemplate (drop 1 r) else cookTemplate r)
         else if d = CHR ''0'' then
           (if r \<noteq> [] \<and> isDigit (hd r) then SyntaxError
            else consCooked (CHR 0x00) (cookTemplate r))
         else if d = CHR ''x'' then
           (if length r < 2 then SyntaxError
            else (case hexNumber 0 (take 2 r) of
                    None \<Rightarrow> SyntaxError
                  | Some v \<Rightarrow> consCooked (char_of v) (cookTemplate (drop 2 r))))
         else if d = CHR ''u'' then
           (if take 1 r = ''{'' then NotModelled
            else if length r < 4 then SyntaxError
            else (case hexNumber 0 (take 4 r) of
                    None \<Rightarrow> SyntaxError
                  | Some v \<Rightarrow> if v < 256 then consCooked (char_of v) (cookTemplate (drop 4 r))
                              else NotModelled))
         else (case escapeValue d of
                 None \<Rightarrow> SyntaxError
               | Some v \<Rightarrow> consCooked v (cookTemplate r)))
      else if c = backtick then NotModelled
      else if c = CHR ''$'' \<and> d = CHR ''{'' then NotModelled
      else if c = CHR 0x0D then
        consCooked (CHR 0x0A) (if d = CHR 0x0A then cookTemplate r else cookTemplate (d # r))
      else consCooked c (cookTemplate (d # r)))"
  by pat_completeness auto
termination
  by (relation "measure length") auto

text \<open>
  The page runs an injected script and posts its messages; \<open>None\<close> where the model
  does not say what the page does. A script that is a syntax error changes nothing.
\<close>

fun hostRun ::
  "string \<Rightarrow> (string \<Rightarrow> string) \<Rightarrow> Host \<Rightarrow> script \<Rightarrow> (Host \<times> message list) option" where
  "hostRun ph txt h (SetContent e) =
     (case cookTemplate e of
        Cooked html \<Rightarrow> Some (hostSetContent ph txt h html)
      | SyntaxError \<Rightarrow> Some (h, [])
      | NotModelled \<Rightarrow> None)"
| "hostRun ph txt h PostContentChange = Some (h, [updateContent txt h])"
| "hostRun ph txt h PostGetContentResponse = Some (h, [OtherMsg])"
| "hostRun ph txt h PostGetTextResponse = Some (h, [OtherMsg])"
| "hostRun ph txt h ClearContent = Some (hostClearContent ph txt h)"

text \<open>The scripts among a handler's effects reach the page in order; the messages it
  posts reach \<open>handleWebViewMessage\<close> in order.\<close>

fun hostRunAll ::
  "string \<Rightarrow> (string \<Rightarrow> string) \<Rightarrow> Host \<Rightarrow> effect list \<Rightarrow> (Host \<times> message list) option" where
  "hostRunAll ph txt h [] = Some (h, [])"
| "hostRunAll ph txt h (InjectJavaScript js # fx) =
     (case hostRun ph txt h js of
        None \<Rightarrow> None
      | Some (h1, ms1) \<Rightarrow>
          (case hostRunAll ph txt h1 fx of
             None \<Rightarrow> None
           | Some (h2, ms2) \<Rightarrow> Some (h2, ms1 @ ms2)))"
| "hostRunAll ph txt h (OnChange a b # fx) = hostRunAll ph txt h fx"
| "hostRunAll ph txt h (OnEditorReady # fx) = hostRunAll ph txt h fx"

fun handleAll :: "EditorState \<Rightarrow> message list \<Rightarrow> EditorState \<times> effect list" where
  "handleAll s [] = (s, [])"
| "handleAll s (m # ms) =
     (let (s1, fx1) = handleWebViewMessage s m;
          (s2, fx2) = handleAll s1 ms
      in (s2, fx1 @ fx2))"

section \<open>The editor screen (app/(drawer)/editor.tsx) and the document service\<close>

text \<open>
  \<open>s.split(re)\<close> of ECMAScript: \<open>cur\<close> is the piece collected since the last split
  (reversed) and the last argument what is left of the string. A match splits unless it
  is empty and the current piece is empty too; the groups of the match follow the piece.
\<close>

definition groups :: "string \<Rightarrow> nat list \<Rightarrow> string list" where
  "groups s ms = map (group s ms) [1 ..< Suc (length ms div 2)]"

function splitFrom :: "regex \<Rightarrow> char option \<Rightarrow> string \<Rightarrow> string \<Rightarrow> string list" where
  "splitFrom re p cur [] = [rev cur]"
| "splitFrom re p cur (x # xs) =
     (case mat re p 0 (x # xs) [] of
        None \<Rightarrow> splitFrom re (Some x) (x # cur) xs
      | Some (e, ms) \<Rightarrow>
          (if e = 0 \<and> cur = [] then splitFrom re (Some x) (x # cur) xs
           else if e = 0 then rev cur # groups (x # xs) ms @ splitFrom re p [] (x # xs)
           else rev cur # groups (x # xs) ms
                @ splitFrom re (Some ((x # xs) ! (e - 1))) [] (drop (e - 1) xs)))"
  by pat_completeness auto
termination
  by (relation "measure (\<lambda>(re, p, cur, s). 2 * length s + (if cur = [] then 0 else 1))") auto

definition splitRe :: "regex \<Rightarrow> string \<Rightarrow> string list" where
  "splitRe re s =
     (if s = [] then (case mat re None 0 [] [] of Some z \<Rightarrow> [] | None \<Rightarrow> [[]])
      else splitFrom re None [] s)"

text \<open>
  A document as the screens store it. A time stamp is held as the instant its ISO-8601
  string denotes, in milliseconds (what \<open>new Date(s).getTime()\<close> reads back); a
  \<open>createdAt\<close>, a \<open>category\<close> or an \<open>id\<close> that is missing or the empty string, which
  \<open>||\<close> treats alike, is \<open>None\<close> or \<open>[]\<close>.
\<close>

record Document =
  docId :: string
  title :: string
  docContent :: string
  lastModified :: nat
  createdAt :: "nat option"
  category :: "string option"
  language :: "string option"
  mode :: "string option"

record EditorScreen =
  document :: "Document option"
  screenContent :: string
  screenTitle :: string
  hasUnsavedChanges :: bool
  wordCount :: nat
  charCount :: nat

text \<open>\<open>text.trim() ? text.trim().split(/\s+/).length : 0\<close> and \<open>text.length\<close>.\<close>

definition wordsOf :: "string \<Rightarrow> nat" where
  "wordsOf text = (if trim text \<noteq> [] then length (splitRe [Plus WhiteSp] (trim text)) else 0)"

definition handleContentChange :: "EditorScreen \<Rightarrow> string \<Rightarrow> string \<Rightarrow> EditorScreen" where
  "handleContentChange scr html text =
     scr\<lparr>screenContent := html, hasUnsavedChanges := True,
         wordCount := wordsOf text, charCount := length text\<rparr>"

text \<open>
  The counts of an HTML source: the HTML view passes the source without its tags as
  the text of its \<open>onChange\<close>, and \<open>handleContentChange\<close> counts that text.
\<close>

definition countWords :: "string \<Rightarrow> nat" where
  "countWords html = wordsOf (stripTags html)"

definition countChars :: "string \<Rightarrow> nat" where
  "countChars html = length (stripTags html)"

text \<open>
  The number of maximal runs of characters that are not white space, counted from the
  left; the flag says whether the position before is inside such a run.
\<close>

fun wordRuns :: "bool \<Rightarrow> string \<Rightarrow> nat" where
  "wordRuns inRun [] = 0"
| "wordRuns inRun (x # xs) =
     (if isWhiteSpace x then wordRuns False xs
      else (if inRun then 0 else 1) + wordRuns True xs)"

text \<open>
  \<open>handleSave\<close>. The clock is read up to three times: \<open>nowId\<close> is \<open>Date.now().toString()\<close>,
  \<open>now1\<close> and \<open>now2\<close> are the two \<open>new Date()\<close>. The store is AsyncStorage, a document
  under the key \<open>document_<id>\<close>; a write that fails leaves the screen as it was.
\<close>

type_synonym storage = "string \<rightharpoonup> Document"

definition documentToSave :: "string \<Rightarrow> nat \<Rightarrow> nat \<Rightarrow> EditorScreen \<Rightarrow> Document" where
  "documentToSave nowId now1 now2 scr =
     \<lparr>docId = (case document scr of
                  Some d \<Rightarrow> if docId d \<noteq> [] then docId d else nowId
                | None \<Rightarrow> nowId),
      title = screenTitle scr,
      docContent = screenContent scr,
      lastModified = now1,
      createdAt = (case document scr of
                     Some d \<Rightarrow> (case createdAt d of Some c \<Rightarrow> Some c | None \<Rightarrow> Some now2)
                   | None \<Rightarrow> Some now2),
      category = (case document scr of
                    Some d \<Rightarrow> (case category d of
                                 Some c \<Rightarrow> if c \<noteq> [] then Some c else Some ''general''
                               | None \<Rightarrow> Some ''general'')
                  | None \<Rightarrow> Some ''general''),
      language = None,
      mode = None\<rparr>"

definition handleSave ::
  "bool \<Rightarrow> string \<Rightarrow> nat \<Rightarrow> nat \<Rightarrow> EditorScreen \<Rightarrow> storage \<Rightarrow> EditorScreen \<times> storage" where
  "handleSave writeOk nowId now1 now2 scr store =
     (let d = documentToSave nowId now1 now2 scr
      in if writeOk
         then (scr\<lparr>document := Some d, hasUnsavedChanges := False\<rparr>,
               store(''document_'' @ docId d \<mapsto> d))
         else (scr, store))"

text \<open>
  \<open>DocumentService.saveDocument\<close>: the record it writes and returns, and the list of
  recent documents it keeps (the newest first, ten at most). A write of the document
  that fails is reported by throwing \<open>Failed to save document\<close>.
\<close>

datatype saveError = FailedToSaveDocument

definition serviceDocumentToSave :: "nat \<Rightarrow> nat \<Rightarrow> Document \<Rightarrow> Document" where
  "serviceDocumentToSave now1 now2 d =
     d\<lparr>lastModified := now1,
       createdAt := (case createdAt d of Some c \<Rightarrow> Some c | None \<Rightarrow> Some now2)\<rparr>"

text \<open>
  The list of recent documents is read and written inside \<open>try\<close> blocks of its own: a
  read that fails gives the empty list, and a write that fails (or a failure before
  it) is logged and leaves the stored list as it was. \<open>readOk\<close> and \<open>writeOk\<close> say
  whether the read and the write of the list succeed.
\<close>

definition getRecentDocumentsList :: "bool \<Rightarrow> string list \<Rightarrow> string list" where
  "getRecentDocumentsList readOk recent = (if readOk then recent else [])"

definition updateRecentDocuments :: "bool \<Rightarrow> bool \<Rightarrow> string \<Rightarrow> string list \<Rightarrow> string list" where
  "updateRecentDocuments readOk writeOk documentId recent =
     (let recentDocs = getRecentDocumentsList readOk recent;
          updatedRecent = take 10 (documentId # filter (\<lambda>i. i \<noteq> documentId) recentDocs)
      in if writeOk then updatedRecent else recent)"

text \<open>\<open>docWriteOk\<close> says whether the write of the document itself succeeds; only its
  failure makes \<open>saveDocument\<close> throw.\<close>

definition saveDocument ::
  "bool \<Rightarrow> bool \<Rightarrow> bool \<Rightarrow> nat \<Rightarrow> nat \<Rightarrow> Document \<Rightarrow> storage \<times> string list
   \<Rightarrow> saveError + Document \<times> storage \<times> string list" where
  "saveDocument docWriteOk recentReadOk recentWriteOk now1 now2 d st =
     (let toSave = serviceDocumentToSave now1 now2 d
      in if docWriteOk
         then Inr (toSave, (fst st)(''document_'' @ docId d \<mapsto> toSave),
                   updateRecentDocuments recentReadOk recentWriteOk (docId d) (snd st))
         else Inl FailedToSaveDocument)"

section \<open>Runs of the component\<close>

text \<open>The state after the first render: the initial values of the \<open>useState\<close> cells
  for the props \<open>initialContent\<close> and \<open>viewMode\<close>.\<close>

definition initialState :: "string \<Rightarrow> ViewMode \<Rightarrow> EditorState" where
  "initialState initialContent vm =
     \<lparr>editorReady = False, content = initialContent, viewMode = vm,
      htmlContent = initialContent,
      markdownContent = convertHTMLToMarkdown initialContent,
      lastWysiwygContent = initialContent,
      webViewRef = (vm = Wysiwyg)\<rparr>"

text \<open>
  The effect of lines 93-102 has the dependencies \<open>[viewMode, editorReady]\<close>: it runs
  after a render when one of the two differs from the render before.
\<close>

definition effectAfter :: "EditorState \<Rightarrow> EditorState \<Rightarrow> effect list" where
  "effectAfter old new =
     (if viewMode new = viewMode old \<and> editorReady new = editorReady old
      then [] else syncEffect new)"


text \<open>A message of the page: \<open>handleWebViewMessage\<close>, the render that follows it, and
  the effect after that render.\<close>

definition messageStep :: "EditorState \<Rightarrow> message \<Rightarrow> EditorState \<times> effect list" where
  "messageStep s msg =
     (let (s1, fx1) = handleWebViewMessage s msg;
          s2 = render s1
      in (s2, fx1 @ effectAfter s s2))"


text \<open>How often a list of effects sends content to the page.\<close>

fun setContentCount :: "effect list \<Rightarrow> nat" where
  "setContentCount [] = 0"
| "setContentCount (InjectJavaScript (SetContent e) # fx) = Suc (setContentCount fx)"
| "setContentCount (f # fx) = setContentCount fx"

text \<open>The page runs the scripts among the effects, and the component handles the
  messages the page posts for them.\<close>

definition deliver ::
  "string \<Rightarrow> (string \<Rightarrow> string) \<Rightarrow> EditorState \<times> Host \<Rightarrow> effect list
   \<Rightarrow> (EditorState \<times> Host) option" where
  "deliver ph txt sh fx =
     (case hostRunAll ph txt (snd sh) fx of
        None \<Rightarrow> None
      | Some (h', ms) \<Rightarrow> Some (fst (handleAll (fst sh) ms), h'))"

text \<open>
  The rich view is left for the HTML view and entered again, with no edit in between.
  Leaving it asks the page for its content. The WebView is then unmounted; coming back
  mounts a new one, whose page announces itself with \<open>editorReady\<close>, and the component
  sends the content again, from the effect of lines 93-102 and from the \<open>editorReady\<close>
  case.
\<close>

definition richHtmlRich ::
  "string \<Rightarrow> (string \<Rightarrow> string) \<Rightarrow> EditorState \<times> Host \<Rightarrow> (EditorState \<times> Host) option" where
  "richHtmlRich ph txt sh =
     (let (s1, fx1) = handleViewModeChange (fst sh) Html
      in case deliver ph txt (s1, snd sh) fx1 of
           None \<Rightarrow> None
         | Some (s2, h2) \<Rightarrow>
             (let (s3, fx3) = handleViewModeChange (render s2) Wysiwyg;
                  s4 = render s3;
                  (h4, ms4) = hostInit ph freshHost;
                  (s5, fx5) = handleAll s4 ms4
              in deliver ph txt (s5, h4) (syncEffect s4 @ fx5)))"

text \<open>A page whose editor holds \<open>html\<close>, and the state of the component in the rich
  view once the page has reported that content.\<close>

definition hostWith :: "string \<Rightarrow> Host" where
  "hostWith html = \<lparr>innerHTML = html, isContentSet = True\<rparr>"

definition richState :: "string \<Rightarrow> string \<Rightarrow> EditorState" where
  "richState html text =
     fst (handleWebViewMessage ((initialState [] Wysiwyg)\<lparr>editorReady := True\<rparr>)
            (ContentChangeMsg html text))"

section \<open>The older copy of the component (src/unnamed/part_003)\<close>

text \<open>
  The repository holds an older copy of the component. Its state has no
  \<open>lastWysiwygContent\<close> cell, its \<open>convertHTMLToMarkdown\<close> neither strips the placeholder
  element nor trims, and its \<open>handleWebViewMessage\<close> stores the content of a
  \<open>contentChange\<close> message as it comes and sends the prop \<open>initialContent\<close>, unescaped,
  when the page is ready.
\<close>

record EditorStateV0 =
  editorReady0 :: bool
  content0 :: string
  viewMode0 :: ViewMode
  htmlContent0 :: string
  markdownContent0 :: string
  webViewRef0 :: bool

definition convertHTMLToMarkdown0 :: "string \<Rightarrow> string" where
  "convertHTMLToMarkdown0 html =
     (let s1 = replaceAll (elementRe ''h1'') [Txt ''# '', Grp 1, Txt ''\<newline>''] html;
          s2 = replaceAll (elementRe ''h2'') [Txt ''## '', Grp 1, Txt ''\<newline>''] s1;
          s3 = replaceAll (elementRe ''h3'') [Txt ''### '', Grp 1, Txt ''\<newline>''] s2;
          s4 = replaceAll (elementRe ''strong'') [Txt ''**'', Grp 1, Txt ''**''] s3;
          s5 = replaceAll (elementRe ''b'') [Txt ''**'', Grp 1, Txt ''**''] s4;
          s6 = replaceAll (elementRe ''em'') [Txt ''*'', Grp 1, Txt ''*''] s5;
          s7 = replaceAll (elementRe ''i'') [Txt ''*'', Grp 1, Txt ''*''] s6;
          s8 = replaceAll anchorRe [Txt ''['', Grp 2, Txt ''](''  , Grp 1, Txt '')''] s7;
          s9 = replaceAll (plainElementRe ''ul'' DotAll) [Grp 1] s8;
          s10 = replaceAll (plainElementRe ''ol'' DotAll) [Grp 1] s9;
          s11 = replaceAll (plainElementRe ''li'' Dot) [Txt ''- '', Grp 1, Txt ''\<newline>''] s10;
          s12 = replaceAll (plainElementRe ''p'' Dot) [Grp 1, Txt ''\<newline>''] s11;
          s13 = replaceAll brRe [Txt ''\<newline>''] s12;
          s14 = replaceAll tagRe [] s13;
          s15 = replaceAll (lit ''&nbsp;'') [Txt '' ''] s14;
          s16 = replaceAll (lit ''&amp;'') [Txt ''&''] s15;
          s17 = replaceAll (lit ''&lt;'') [Txt ''<''] s16
      in replaceAll (lit ''&gt;'') [Txt ''>''] s17)"

fun handleWebViewMessage0 ::
  "string \<Rightarrow> EditorStateV0 \<Rightarrow> message \<Rightarrow> EditorStateV0 \<times> effect list" where
  "handleWebViewMessage0 initialContent s EditorReadyMsg =
     (s\<lparr>editorReady0 := True\<rparr>,
      OnEditorReady #
        (if initialContent \<noteq> [] \<and> webViewRef0 s
         then [InjectJavaScript (SetContent initialContent)] else []))"
| "handleWebViewMessage0 initialContent s (ContentChangeMsg c t) =
     (s\<lparr>content0 := c, htmlContent0 := c, markdownContent0 := convertHTMLToMarkdown0 c\<rparr>,
      [OnChange c t])"
| "handleWebViewMessage0 initialContent s OtherMsg = (s, [])"
| "handleWebViewMessage0 initialContent s MalformedMsg = (s, [])"

definition initialStateV0 :: "ViewMode \<Rightarrow> EditorStateV0" where
  "initialStateV0 vm =
     \<lparr>editorReady0 = False, content0 = [], viewMode0 = vm, htmlContent0 = [],
      markdownContent0 = [], webViewRef0 = (vm = Wysiwyg)\<rparr>"

section \<open>Notions of the statements\<close>

text \<open>\<open>occursIn u s\<close>: the string \<open>u\<close> occurs in \<open>s\<close> (\<open>s.includes(u)\<close>).\<close>

fun occursIn :: "string \<Rightarrow> string \<Rightarrow> bool" where
  "occursIn u [] = (u = [])"
| "occursIn u (x # xs) = (take (length u) (x # xs) = u \<or> occursIn u xs)"

text \<open>A text without a line terminator.\<close>

definition singleLine :: "string \<Rightarrow> bool" where
  "singleLine t = list_all (\<lambda>x. \<not> isLineTerminator x) t"



text \<open>Inputs of the examples below.\<close>

definition backslashBody :: string where
  "backslashBody = ''<p>C:'' @ [backslash] @ ''new</p>''"


definition pendingState :: EditorState where
  "pendingState = fst (setContent (initialState [] Wysiwyg) ''<p>x</p>'')"

definition typedMarkdownState :: EditorState where
  "typedMarkdownState = fst (markdownOnChangeText (initialState [] Markdown) ''# T'')"

definition savedDocument :: Document where
  "savedDocument =
     \<lparr>docId = ''7'', title = ''Notes'', docContent = ''<p>x</p>'', lastModified = 10,
      createdAt = Some 3, category = Some ''general'', language = None, mode = None\<rparr>"

definition openScreen :: EditorScreen where
  "openScreen =
     \<lparr>document = Some savedDocument, screenContent = ''<p>y</p>'', screenTitle = ''Notes'',
      hasUnsavedChanges = True, wordCount = 1, charCount = 1\<rparr>"

definition emptyStorage :: storage where
  "emptyStorage = Map.empty"

definition twoPlaceholders :: string where
  "twoPlaceholders = placeholderDiv ''a'' @ placeholderDiv ''b''"

definition twoLinePlaceholder :: string where
  "twoLinePlaceholder = placeholderDiv ''a\<newline>b''"


section \<open>Facts about the matcher\<close>

lemma inCls_ws: "inCls WhiteSp = isWhiteSpace"
  by (rule ext) simp

lemma mat_lit_append:
  "mat (lit u @ r) p i (u @ s) ms
   = mat r (if u = [] then p else Some (last u)) (i + length u) s ms"
  by (induction u arbitrary: p i) (simp_all add: lit_def)

lemma mat_star_greedy_last:
  "mat [Star c Greedy] p i s ms = Some (i + length (takeWhile (inCls c) s), ms)"
  by (induction s arbitrary: p i) simp_all

lemma mat_plus_ws:
  "mat [Plus WhiteSp] p 0 (x # xs) []
   = (if isWhiteSpace x then Some (Suc (length (takeWhile isWhiteSpace xs)), []) else None)"
  by (simp add: mat_star_greedy_last inCls_ws)

lemma mat_lit_mismatch:
  "take (length u) s \<noteq> u \<Longrightarrow> mat (lit u @ r) p i s ms = None"
proof (induction u arbitrary: s p i)
  case Nil
  then show ?case by simp
next
  case (Cons c u)
  then show ?case by (cases s) (auto simp: lit_def)
qed

lemma replaceFirstFrom_match:
  assumes "mat re p 0 (x # s) [] = Some (e, ms)"
  shows "replaceFirstFrom re rp p (x # s) = expand rp (x # s) ms @ drop e (x # s)"
  using assms by simp

text \<open>A text in front of the first match is kept as it is.\<close>

lemma replaceFirstFrom_skip:
  assumes "\<And>a b q. pre = a @ b \<Longrightarrow> b \<noteq> [] \<Longrightarrow> mat re q 0 (b @ s) [] = None"
  shows "replaceFirstFrom re rp p (pre @ s)
         = pre @ replaceFirstFrom re rp (if pre = [] then p else Some (last pre)) s"
  using assms
proof (induction pre arbitrary: p)
  case Nil
  show ?case by simp
next
  case (Cons x pre)
  have none: "mat re p 0 (x # pre @ s) [] = None"
    using Cons.prems [of "[]" "x # pre" p] by simp
  have IH: "replaceFirstFrom re rp (Some x) (pre @ s)
            = pre @ replaceFirstFrom re rp (if pre = [] then Some x else Some (last pre)) s"
  proof (rule Cons.IH)
    fix a b q
    assume "pre = a @ b" "b \<noteq> []"
    then show "mat re q 0 (b @ s) [] = None"
      using Cons.prems [of "x # a" b q] by simp
  qed
  show ?case using none IH by simp
qed

lemma occursIn_append: "occursIn u (a @ u @ c)"
proof (induction a)
  case Nil
  show ?case
  proof (cases "u @ c")
    case Nil
    then show ?thesis by simp
  next
    case (Cons y l)
    have "take (length u) (u @ c) = u" by simp
    then show ?thesis by (simp add: Cons)
  qed
next
  case (Cons x a)
  then show ?case by simp
qed

lemma occursIn_suffix: "occursIn u b \<Longrightarrow> occursIn u (a @ b)"
  by (induction a) simp_all

text \<open>A string whose first character does not occur in it again cannot start inside
  a text in front of it, unless it occurs within that text.\<close>

lemma no_early_start:
  assumes u: "u \<noteq> []" "hd u \<notin> set (tl u)"
    and b: "b \<noteq> []" "\<not> occursIn u b"
  shows "take (length u) (b @ u @ rest) \<noteq> u"
proof
  assume eq: "take (length u) (b @ u @ rest) = u"
  show False
  proof (cases "length u \<le> length b")
    case True
    with eq have "take (length u) b = u" by simp
    then have "b = [] @ u @ drop (length u) b" by (metis append_Nil append_take_drop_id)
    then have "occursIn u b" by (metis occursIn_append)
    with b show False by simp
  next
    case False
    then have lt: "length b < length u" by simp
    have "u ! length b = take (length u) (b @ u @ rest) ! length b"
      by (simp only: eq)
    also have "\<dots> = (b @ u @ rest) ! length b" by (rule nth_take [OF lt])
    also have "\<dots> = hd u" using u(1) by (simp add: nth_append hd_conv_nth)
    finally have "u ! length b = hd u" .
    moreover have "0 < length b" using b(1) by simp
    ultimately have "hd u \<in> set (tl u)"
      using lt by (metis Suc_pred in_set_conv_nth length_tl less_diff_conv nth_tl Suc_eq_plus1)
    with u show False by simp
  qed
qed

section \<open>The placeholder element is stripped\<close>

lemma placeholderRe_parts:
  "placeholderRe = lit placeholderOpen @ (Star Dot Lazy # lit placeholderClose)"
  by (simp add: placeholderRe_def)

lemma lazy_dot_until_close:
  assumes "\<forall>x\<in>set t. \<not> isLineTerminator x" and "\<not> occursIn placeholderClose t"
  shows "mat (Star Dot Lazy # lit placeholderClose) p i (t @ placeholderClose @ rest) ms
         = Some (i + length t + length placeholderClose, ms)"
  using assms
proof (induction t arbitrary: p i)
  case Nil
  show ?case by (simp add: lit_def placeholderClose_def)
next
  case (Cons x t)
  have u: "placeholderClose \<noteq> []" "hd placeholderClose \<notin> set (tl placeholderClose)"
    by (simp_all add: placeholderClose_def)
  have "take (length placeholderClose) ((x # t) @ placeholderClose @ rest) \<noteq> placeholderClose"
    using u Cons.prems(2) by (intro no_early_start) simp_all
  then have none: "mat (lit placeholderClose) p i (x # t @ placeholderClose @ rest) ms = None"
    using mat_lit_mismatch [of placeholderClose _ "[]"] by simp
  have x: "inCls Dot x" using Cons.prems(1) by simp
  have "mat (Star Dot Lazy # lit placeholderClose) (Some x) (Suc i)
          (t @ placeholderClose @ rest) ms
        = Some (Suc i + length t + length placeholderClose, ms)"
    using Cons.prems by (intro Cons.IH) simp_all
  with none x show ?case by simp
qed

lemma placeholder_match:
  assumes "\<forall>x\<in>set t. \<not> isLineTerminator x" and "\<not> occursIn placeholderClose t"
  shows "mat placeholderRe p 0 (placeholderDiv t @ rest) [] = Some (length (placeholderDiv t), [])"
proof -
  have "mat placeholderRe p 0 (placeholderDiv t @ rest) []
        = mat (Star Dot Lazy # lit placeholderClose) (Some (last placeholderOpen))
            (0 + length placeholderOpen) (t @ placeholderClose @ rest) []"
    unfolding placeholderRe_parts placeholderDiv_def append_assoc
    by (subst mat_lit_append) (simp add: placeholderOpen_def)
  also have "\<dots> = Some (0 + length placeholderOpen + length t + length placeholderClose, [])"
    by (rule lazy_dot_until_close [OF assms])
  finally show ?thesis by (simp add: placeholderDiv_def)
qed

text \<open>
  The first placeholder element goes, whatever stands before and after it, when its
  text is on one line and does not hold the closing tag.
\<close>

lemma stripPlaceholder_removes:
  assumes "\<not> occursIn placeholderOpen pre"
    and "\<forall>x\<in>set t. \<not> isLineTerminator x"
    and "\<not> occursIn placeholderClose t"
  shows "stripPlaceholder (pre @ placeholderDiv t @ rest) = pre @ rest"
proof -
  let ?s = "placeholderDiv t @ rest"
  obtain u where u: "?s = CHR ''<'' # u"
    by (simp add: placeholderDiv_def placeholderOpen_def)
  define q where "q = (if pre = [] then None else Some (last pre))"
  have o: "placeholderOpen \<noteq> []" "hd placeholderOpen \<notin> set (tl placeholderOpen)"
    by (simp_all add: placeholderOpen_def)
  have early: "mat placeholderRe q' 0 (b @ ?s) [] = None" if "pre = a @ b" "b \<noteq> []" for a b q'
  proof -
    from that assms(1) have "\<not> occursIn placeholderOpen b"
      using occursIn_suffix by blast
    with o that have "take (length placeholderOpen) (b @ placeholderOpen @ (t @ placeholderClose @ rest))
        \<noteq> placeholderOpen"
      by (intro no_early_start)
    then show ?thesis
      unfolding placeholderRe_parts placeholderDiv_def append_assoc
      by (rule mat_lit_mismatch)
  qed
  have "stripPlaceholder (pre @ ?s) = pre @ replaceFirstFrom placeholderRe [] q ?s"
    unfolding stripPlaceholder_def replaceFirst_def q_def
    by (rule replaceFirstFrom_skip) (rule early)
  also have "replaceFirstFrom placeholderRe [] q ?s
             = expand [] ?s [] @ drop (length (placeholderDiv t)) ?s"
    unfolding u
    by (rule replaceFirstFrom_match)
       (simp only: u [symmetric] placeholder_match [OF assms(2,3)])
  also have "\<dots> = rest" by simp
  finally show ?thesis .
qed

lemma handle_contentChange:
  "handleWebViewMessage s (ContentChangeMsg c t)
   = (s\<lparr>content := stripPlaceholder c, htmlContent := stripPlaceholder c,
        markdownContent := convertHTMLToMarkdown (stripPlaceholder c),
        lastWysiwygContent := stripPlaceholder c\<rparr>,
      [OnChange (stripPlaceholder c) t])"
  by (simp add: stripPlaceholder_def Let_def)

lemma take_occursIn: "take (length u) b = u \<Longrightarrow> occursIn u b"
proof -
  assume "take (length u) b = u"
  then have "b = [] @ u @ drop (length u) b" by (metis append_Nil append_take_drop_id)
  then show "occursIn u b" by (metis occursIn_append)
qed

text \<open>A content without the opening tag of the placeholder element is left as it is.\<close>

lemma stripPlaceholder_none:
  assumes "\<not> occursIn placeholderOpen c"
  shows "stripPlaceholder c = c"
proof -
  have early: "mat placeholderRe q' 0 (b @ []) [] = None" if "c = a @ b" "b \<noteq> []" for a b q'
  proof -
    from that assms have "\<not> occursIn placeholderOpen b"
      using occursIn_suffix by blast
    then have "take (length placeholderOpen) (b @ []) \<noteq> placeholderOpen"
      using take_occursIn [of placeholderOpen b] by auto
    then show ?thesis
      unfolding placeholderRe_parts by (rule mat_lit_mismatch)
  qed
  have "take (length placeholderOpen) [] \<noteq> placeholderOpen"
    by (simp add: placeholderOpen_def)
  then have none: "mat placeholderRe q 0 [] [] = None" for q
    unfolding placeholderRe_parts by (rule mat_lit_mismatch)
  have "replaceFirstFrom placeholderRe [] None (c @ [])
        = c @ replaceFirstFrom placeholderRe [] (if c = [] then None else Some (last c)) []"
    by (rule replaceFirstFrom_skip) (rule early)
  also have "\<dots> = c" by (simp add: none)
  finally show ?thesis by (simp add: stripPlaceholder_def replaceFirst_def)
qed

lemma singleLine_iff: "singleLine t = (\<forall>x\<in>set t. \<not> isLineTerminator x)"
  by (simp add: singleLine_def list_all_iff)

text \<open>
  C8 (amended). In components/RichTextEditor.tsx a \<open>contentChange\<close> message is handled
  by storing its content after one replacement with the pattern of line 583: the
  result goes to the canonical content, to the HTML and last-rich caches, through the
  codec to the Markdown cache, and to \<open>onChange\<close>. The replacement removes the first
  placeholder element of the content when the text of that element is on one line and
  does not hold \<open></div>\<close>, whatever stands before it without the opening tag of such
  an element and whatever stands after it; a content without that opening tag is
  stored as it is.
\<close>

theorem contentChange_strips_first_placeholder:
  "handleWebViewMessage s (ContentChangeMsg c t)
   = (s\<lparr>content := stripPlaceholder c, htmlContent := stripPlaceholder c,
        markdownContent := convertHTMLToMarkdown (stripPlaceholder c),
        lastWysiwygContent := stripPlaceholder c\<rparr>,
      [OnChange (stripPlaceholder c) t])
   \<and> (\<not> occursIn placeholderOpen pre \<and> singleLine ph \<and> \<not> occursIn placeholderClose ph
        \<longrightarrow> stripPlaceholder (pre @ placeholderDiv ph @ rest) = pre @ rest)
   \<and> (\<not> occursIn placeholderOpen c \<longrightarrow> stripPlaceholder c = c)"
proof -
  have a: "handleWebViewMessage s (ContentChangeMsg c t)
           = (s\<lparr>content := stripPlaceholder c, htmlContent := stripPlaceholder c,
                markdownContent := convertHTMLToMarkdown (stripPlaceholder c),
                lastWysiwygContent := stripPlaceholder c\<rparr>,
              [OnChange (stripPlaceholder c) t])"
    by (rule handle_contentChange)
  have b: "\<not> occursIn placeholderOpen pre \<and> singleLine ph \<and> \<not> occursIn placeholderClose ph
           \<longrightarrow> stripPlaceholder (pre @ placeholderDiv ph @ rest) = pre @ rest"
    using stripPlaceholder_removes [of pre ph rest] by (simp add: singleLine_iff)
  have c: "\<not> occursIn placeholderOpen c \<longrightarrow> stripPlaceholder c = c"
    using stripPlaceholder_none [of c] by simp
  from a b c show ?thesis by (intro conjI)
qed

theorem contentChange_strips_first_placeholder_witness:
  "handleWebViewMessage (initialState [] Wysiwyg)
     (ContentChangeMsg ''<div class=\"placeholder\">Start typing...</div>'' ''Start typing...'')
   = ((initialState [] Wysiwyg)\<lparr>content := [], htmlContent := [], markdownContent := [],
        lastWysiwygContent := []\<rparr>,
      [OnChange [] ''Start typing...''])
   \<and> stripPlaceholder ''<p>x</p>'' = ''<p>x</p>''"
proof -
  have h1: "\<not> occursIn placeholderOpen [] \<and> singleLine ''Start typing...''
            \<and> \<not> occursIn placeholderClose ''Start typing...''"
    by (simp add: placeholderOpen_def placeholderClose_def singleLine_def isLineTerminator_def)
  have h2: "\<not> occursIn placeholderOpen ''<p>x</p>''"
    by (simp add: placeholderOpen_def)
  have d: "convertHTMLToMarkdown [] = []" by code_simp
  have e: "placeholderDiv ''Start typing...'' = ''<div class=\"placeholder\">Start typing...</div>''"
    by (simp add: placeholderDiv_def placeholderOpen_def placeholderClose_def)
  note T1 = contentChange_strips_first_placeholder
      [where s = "initialState [] Wysiwyg"
         and c = "placeholderDiv ''Start typing...''"
         and t = "''Start typing...''" and pre = "[]" and ph = "''Start typing...''"
         and rest = "[]"]
  note T2 = contentChange_strips_first_placeholder
      [where s = "initialState [] Wysiwyg" and c = "''<p>x</p>''" and t = "[]"
         and pre = "[]" and ph = "[]" and rest = "[]"]
  from T1 have "\<not> occursIn placeholderOpen [] \<and> singleLine ''Start typing...''
            \<and> \<not> occursIn placeholderClose ''Start typing...''
        \<longrightarrow> stripPlaceholder ([] @ placeholderDiv ''Start typing...'' @ []) = [] @ []"
    by (elim conjE)
  with h1 have "stripPlaceholder ([] @ placeholderDiv ''Start typing...'' @ []) = [] @ []"
    by (rule rev_mp)
  then have s1: "stripPlaceholder (placeholderDiv ''Start typing...'') = []"
    by simp
  from T1 have "handleWebViewMessage (initialState [] Wysiwyg)
       (ContentChangeMsg (placeholderDiv ''Start typing...'') ''Start typing...'')
     = ((initialState [] Wysiwyg)
          \<lparr>content := stripPlaceholder (placeholderDiv ''Start typing...''),
           htmlContent := stripPlaceholder (placeholderDiv ''Start typing...''),
           markdownContent :=
             convertHTMLToMarkdown (stripPlaceholder (placeholderDiv ''Start typing...'')),
           lastWysiwygContent := stripPlaceholder (placeholderDiv ''Start typing...'')\<rparr>,
        [OnChange (stripPlaceholder (placeholderDiv ''Start typing...'')) ''Start typing...''])"
    by (elim conjE)
  then have "handleWebViewMessage (initialState [] Wysiwyg)
       (ContentChangeMsg (placeholderDiv ''Start typing...'') ''Start typing...'')
     = ((initialState [] Wysiwyg)\<lparr>content := [], htmlContent := [], markdownContent := [],
          lastWysiwygContent := []\<rparr>,
        [OnChange [] ''Start typing...''])"
    by (simp only: s1 d)
  then have a: "handleWebViewMessage (initialState [] Wysiwyg)
       (ContentChangeMsg ''<div class=\"placeholder\">Start typing...</div>'' ''Start typing...'')
     = ((initialState [] Wysiwyg)\<lparr>content := [], htmlContent := [], markdownContent := [],
          lastWysiwygContent := []\<rparr>,
        [OnChange [] ''Start typing...''])"
    by (simp only: e)
  from T2 h2 have b: "stripPlaceholder ''<p>x</p>'' = ''<p>x</p>''"
    by blast
  from a b show ?thesis by (intro conjI)
qed

text \<open>
  C8, as stated, fails on three inputs. Of two placeholder elements only the first is
  removed. A placeholder element whose text has a line break is not removed: the
  \<open>.\<close> of the pattern matches no line terminator. And the older copy of the component
  (src/unnamed/part_003), which the claim cites as well, removes nothing.
\<close>

theorem contentChange_keeps_other_placeholders:
  "twoPlaceholders = ''<div class=\"placeholder\">a</div><div class=\"placeholder\">b</div>''
   \<and> content (fst (handleWebViewMessage (initialState [] Wysiwyg)
                      (ContentChangeMsg twoPlaceholders ''ab'')))
       = ''<div class=\"placeholder\">b</div>''
   \<and> snd (handleWebViewMessage (initialState [] Wysiwyg) (ContentChangeMsg twoPlaceholders ''ab''))
       = [OnChange ''<div class=\"placeholder\">b</div>'' ''ab'']
   \<and> twoLinePlaceholder = ''<div class=\"placeholder\">a\<newline>b</div>''
   \<and> content (fst (handleWebViewMessage (initialState [] Wysiwyg)
                      (ContentChangeMsg twoLinePlaceholder ''a b'')))
       = ''<div class=\"placeholder\">a\<newline>b</div>''
   \<and> snd (handleWebViewMessage (initialState [] Wysiwyg) (ContentChangeMsg twoLinePlaceholder ''a b''))
       = [OnChange ''<div class=\"placeholder\">a\<newline>b</div>'' ''a b'']
   \<and> content0 (fst (handleWebViewMessage0 [] (initialStateV0 Wysiwyg)
                       (ContentChangeMsg ''<div class=\"placeholder\">Start typing...</div>''
                          ''Start typing...'')))
       = ''<div class=\"placeholder\">Start typing...</div>''
   \<and> snd (handleWebViewMessage0 [] (initialStateV0 Wysiwyg)
            (ContentChangeMsg ''<div class=\"placeholder\">Start typing...</div>''
               ''Start typing...''))
       = [OnChange ''<div class=\"placeholder\">Start typing...</div>'' ''Start typing...'']"
proof -
  have a: "twoPlaceholders = ''<div class=\"placeholder\">a</div><div class=\"placeholder\">b</div>''"
    by code_simp
  have b: "content (fst (handleWebViewMessage (initialState [] Wysiwyg)
                      (ContentChangeMsg twoPlaceholders ''ab'')))
       = ''<div class=\"placeholder\">b</div>''"
    by code_simp
  have c: "snd (handleWebViewMessage (initialState [] Wysiwyg) (ContentChangeMsg twoPlaceholders ''ab''))
       = [OnChange ''<div class=\"placeholder\">b</div>'' ''ab'']"
    by code_simp
  have d: "twoLinePlaceholder = ''<div class=\"placeholder\">a\<newline>b</div>''"
    by code_simp
  have e: "content (fst (handleWebViewMessage (initialState [] Wysiwyg)
                      (ContentChangeMsg twoLinePlaceholder ''a b'')))
       = ''<div class=\"placeholder\">a\<newline>b</div>''"
    by code_simp
  have f: "snd (handleWebViewMessage (initialState [] Wysiwyg) (ContentChangeMsg twoLinePlaceholder ''a b''))
       = [OnChange ''<div class=\"placeholder\">a\<newline>b</div>'' ''a b'']"
    by code_simp
  have g: "content0 (fst (handleWebViewMessage0 [] (initialStateV0 Wysiwyg)
                       (ContentChangeMsg ''<div class=\"placeholder\">Start typing...</div>''
                          ''Start typing...'')))
       = ''<div class=\"placeholder\">Start typing...</div>''"
    by simp
  have h: "snd (handleWebViewMessage0 [] (initialStateV0 Wysiwyg)
            (ContentChangeMsg ''<div class=\"placeholder\">Start typing...</div>''
               ''Start typing...''))
       = [OnChange ''<div class=\"placeholder\">Start typing...</div>'' ''Start typing...'']"
    by simp
  from a b c d e f g h show ?thesis by (intro conjI)
qed

section \<open>Word and character counts\<close>

lemma wordRuns_dropWhile:
  "wordRuns False (dropWhile isWhiteSpace s) = wordRuns False s"
  by (induction s) simp_all

lemma wordRuns_append_ws:
  "\<forall>x\<in>set w. isWhiteSpace x \<Longrightarrow> wordRuns b (s @ w) = wordRuns b s"
proof (induction s arbitrary: b)
  case Nil
  then show ?case by (induction w arbitrary: b) simp_all
next
  case (Cons x s)
  then show ?case by simp
qed

lemma trim_split:
  "dropWhile isWhiteSpace s
   = trim s @ rev (takeWhile isWhiteSpace (rev (dropWhile isWhiteSpace s)))"
  unfolding trim_def by (metis rev_append rev_rev_ident takeWhile_dropWhile_id)

lemma wordRuns_trim: "wordRuns False (trim s) = wordRuns False s"
proof -
  let ?d = "dropWhile isWhiteSpace s"
  let ?w = "rev (takeWhile isWhiteSpace (rev ?d))"
  have "wordRuns False ?d = wordRuns False (trim s @ ?w)"
    using trim_split [of s] by simp
  also have "\<dots> = wordRuns False (trim s)"
    by (rule wordRuns_append_ws) (auto dest: set_takeWhileD)
  finally show ?thesis by (simp add: wordRuns_dropWhile)
qed

lemma trim_hd:
  assumes ne: "trim s \<noteq> []"
  shows "\<not> isWhiteSpace (hd (trim s))"
proof -
  let ?d = "dropWhile isWhiteSpace s"
  have "?d \<noteq> []"
  proof
    assume "?d = []"
    then have "trim s = []" unfolding trim_def by (simp only: rev.simps dropWhile.simps)
    with ne show False by simp
  qed
  then have "\<not> isWhiteSpace (hd ?d)" by (rule hd_dropWhile)
  moreover have "hd ?d = hd (trim s)" using ne by (subst trim_split) simp
  ultimately show ?thesis by simp
qed

lemma trim_last:
  assumes ne: "trim s \<noteq> []"
  shows "\<not> isWhiteSpace (last (trim s))"
proof -
  let ?r = "dropWhile isWhiteSpace (rev (dropWhile isWhiteSpace s))"
  have r: "?r \<noteq> []" using ne by (simp add: trim_def)
  then have "\<not> isWhiteSpace (hd ?r)" by (rule hd_dropWhile)
  moreover have "last (trim s) = hd ?r" using r by (simp add: trim_def last_rev)
  ultimately show ?thesis by simp
qed

text \<open>
  Splitting at \<open>/\s+/\<close> a string that does not end in white space, with a piece under
  way or a first character that is not white space, gives one piece per run.
\<close>

lemma splitFrom_ws_count:
  assumes "cur = [] \<longrightarrow> s \<noteq> [] \<and> \<not> isWhiteSpace (hd s)"
    and "s \<noteq> [] \<longrightarrow> \<not> isWhiteSpace (last s)"
  shows "length (splitFrom [Plus WhiteSp] p cur s)
         = wordRuns (cur \<noteq> []) s + (if cur \<noteq> [] then 1 else 0)"
  using assms
proof (induction s arbitrary: p cur rule: length_induct)
  case (1 s)
  show ?case
  proof (cases s)
    case Nil
    with 1 show ?thesis by simp
  next
    case (Cons x xs)
    show ?thesis
    proof (cases "isWhiteSpace x")
      case False
      have "length (splitFrom [Plus WhiteSp] (Some x) (x # cur) xs)
            = wordRuns (x # cur \<noteq> []) xs + (if x # cur \<noteq> [] then 1 else 0)"
        using 1 Cons by (intro 1(1)[rule_format]) auto
      with False Cons show ?thesis by (simp add: mat_plus_ws del: mat.simps)
    next
      case True
      let ?s' = "dropWhile isWhiteSpace xs"
      from True 1(2) Cons have cur: "cur \<noteq> []" by auto
      from True 1(3) Cons have xs: "xs \<noteq> []" "\<not> isWhiteSpace (last xs)"
        by (auto split: if_splits)
      then have ne: "?s' \<noteq> []" by (metis dropWhile_eq_Nil_conv last_in_set)
      then have hd: "\<not> isWhiteSpace (hd ?s')" by (rule hd_dropWhile)
      have "xs = takeWhile isWhiteSpace xs @ ?s'" by simp
      then have last: "last ?s' = last xs" using ne by (metis last_appendR)
      have len: "length ?s' < length s"
        using Cons by (simp add: length_dropWhile_le le_imp_less_Suc)
      have IH: "length (splitFrom [Plus WhiteSp] q [] ?s') = wordRuns False ?s'" for q
        using 1(1)[rule_format, OF len, of "[]" q] ne hd last xs by simp
      have drop: "drop (length (takeWhile isWhiteSpace xs)) xs = ?s'"
        by (simp add: dropWhile_eq_drop)
      show ?thesis
        using True Cons cur
        by (simp add: mat_plus_ws groups_def drop IH wordRuns_dropWhile del: mat.simps)
    qed
  qed
qed

lemma wordsOf_wordRuns: "wordsOf t = wordRuns False (trim t)"
proof (cases "trim t = []")
  case True
  then show ?thesis by (simp add: wordsOf_def)
next
  case False
  then have "length (splitFrom [Plus WhiteSp] None [] (trim t)) = wordRuns False (trim t)"
    using splitFrom_ws_count [of "[]" "trim t" None] trim_hd [of t] trim_last [of t]
    by simp
  with False show ?thesis by (simp add: wordsOf_def splitRe_def)
qed

text \<open>
  C9. The word count that \<open>handleContentChange\<close> shows for a text is the number of
  maximal runs of characters that are not white space in the trimmed text, and its
  character count is the length of the text. For an HTML source the HTML view passes
  the source without its tags as that text, so \<open>countWords\<close> counts the runs of the
  tag-stripped, trimmed source and \<open>countChars\<close> is the length of the tag-stripped
  source: 0 words for the empty string, 2 for \<open><p>a b</p>\<close> and for
  \<open><p>  a   b  </p>\<close>, 2 characters for \<open><b>hi</b>\<close>.
\<close>

theorem word_and_char_counts:
  "snd (htmlOnChangeText s html) = [OnChange html (stripTags html)]
   \<and> wordCount (handleContentChange scr h t) = wordRuns False (trim t)
   \<and> charCount (handleContentChange scr h t) = length t
   \<and> countWords html = wordRuns False (trim (stripTags html))
   \<and> countChars html = length (stripTags html)
   \<and> countWords [] = 0
   \<and> countWords ''<p>a b</p>'' = 2
   \<and> countWords ''<p>  a   b  </p>'' = 2
   \<and> countChars ''<b>hi</b>'' = 2"
proof -
  have a: "snd (htmlOnChangeText s html) = [OnChange html (stripTags html)]"
    by (simp add: htmlOnChangeText_def)
  have b: "wordCount (handleContentChange scr h t) = wordRuns False (trim t)"
    by (simp add: handleContentChange_def wordsOf_wordRuns)
  have c: "charCount (handleContentChange scr h t) = length t"
    by (simp add: handleContentChange_def)
  have d: "countWords html = wordRuns False (trim (stripTags html))"
    by (simp add: countWords_def wordsOf_wordRuns)
  have e: "countChars html = length (stripTags html)"
    by (simp add: countChars_def)
  have f: "countWords [] = 0" by code_simp
  have g: "countWords ''<p>a b</p>'' = 2" by code_simp
  have h: "countWords ''<p>  a   b  </p>'' = 2" by code_simp
  have i: "countChars ''<b>hi</b>'' = 2" by code_simp
  from a b c d e f g h i show ?thesis by (intro conjI)
qed

section \<open>Clearing the editor\<close>











section \<open>The codec on lists and on repeated marks\<close>

text \<open>
  C5. Two adjacent list lines are not turned into one well-formed list:
  \<open>convertMarkdownToHTML\<close> first wraps each line in its own \<open><ul>\<close>, then replaces
  every line break before a \<open><ul>\<close> by \<open></li><li>\<close> (which leaves nothing for the
  pattern that should join adjacent lists) and at last deletes every \<open></ul>\<close>. The
  result has one \<open><ul>\<close> that is never closed and three \<open><li>\<close> for two lines; a
  single list line loses its \<open></ul>\<close> as well.
\<close>

theorem list_lines_not_coalesced:
  "convertMarkdownToHTML ''- a\<newline>- b'' = ''<ul><li>a</li></li><li><li>b</li>''
   \<and> convertMarkdownToHTML ''- a'' = ''<ul><li>a</li>''"
proof -
  have a: "convertMarkdownToHTML ''- a\<newline>- b'' = ''<ul><li>a</li></li><li><li>b</li>''"
    by code_simp
  have b: "convertMarkdownToHTML ''- a'' = ''<ul><li>a</li>''"
    by code_simp
  from a b show ?thesis by (intro conjI)
qed

text \<open>
  C1. Two bold spans on one line do not survive the round trip: \<open>convertHTMLToMarkdown\<close>
  writes \<open>**a** and **b**\<close>, and the greedy \<open>(.*)\<close> of the patterns for \<open>**\<close> and
  \<open>*\<close> in \<open>convertMarkdownToHTML\<close> takes everything from the first mark to the last
  one, so one \<open><strong>\<close> comes back around both spans, with an \<open><em>\<close> inside.
  Two italic spans come back as one. A single span, a heading and a link are kept.
\<close>

theorem roundtrip_merges_repeated_marks:
  "convertHTMLToMarkdown ''<p><b>a</b> and <b>b</b></p>'' = ''**a** and **b**''
   \<and> convertMarkdownToHTML ''**a** and **b**'' = ''<strong>a<em>* and *</em>b</strong>''
   \<and> convertHTMLToMarkdown ''<p><i>a</i> and <i>b</i></p>'' = ''*a* and *b*''
   \<and> convertMarkdownToHTML ''*a* and *b*'' = ''<em>a* and *b</em>''
   \<and> convertMarkdownToHTML (convertHTMLToMarkdown ''<p>Hello <strong>World</strong></p>'')
       = ''Hello <strong>World</strong>''
   \<and> convertMarkdownToHTML (convertHTMLToMarkdown ''<h2>T</h2>'') = ''<h2>T</h2>''
   \<and> convertMarkdownToHTML (convertHTMLToMarkdown ''<a href=\"u\">x</a>'') = ''<a href=\"u\">x</a>''"
proof -
  have a: "convertHTMLToMarkdown ''<p><b>a</b> and <b>b</b></p>'' = ''**a** and **b**''"
    by code_simp
  have b: "convertMarkdownToHTML ''**a** and **b**'' = ''<strong>a<em>* and *</em>b</strong>''"
    by code_simp
  have c: "convertHTMLToMarkdown ''<p><i>a</i> and <i>b</i></p>'' = ''*a* and *b*''"
    by code_simp
  have d: "convertMarkdownToHTML ''*a* and *b*'' = ''<em>a* and *b</em>''"
    by code_simp
  have e: "convertMarkdownToHTML (convertHTMLToMarkdown ''<p>Hello <strong>World</strong></p>'')
           = ''Hello <strong>World</strong>''"
    by code_simp
  have f: "convertMarkdownToHTML (convertHTMLToMarkdown ''<h2>T</h2>'') = ''<h2>T</h2>''"
    by code_simp
  have g: "convertMarkdownToHTML (convertHTMLToMarkdown ''<a href=\"u\">x</a>'')
           = ''<a href=\"u\">x</a>''"
    by code_simp
  from a b c d e f g show ?thesis by (intro conjI)
qed

section \<open>Switching views\<close>

text \<open>
  C3. Switching from the Markdown view to the HTML view leaves the HTML cache as it
  was: no branch of \<open>handleViewModeChange\<close> is for this switch. After \<open># T\<close> has been
  typed in the Markdown view of an empty document, the canonical content is
  \<open><h1>T</h1>\<close> and the HTML view is shown the empty string.
\<close>

theorem markdown_to_html_keeps_html_cache:
  "viewMode typedMarkdownState = Markdown
   \<and> markdownContent typedMarkdownState = ''# T''
   \<and> content typedMarkdownState = ''<h1>T</h1>''
   \<and> convertMarkdownToHTML (markdownContent typedMarkdownState) = ''<h1>T</h1>''
   \<and> viewMode (fst (handleViewModeChange typedMarkdownState Html)) = Html
   \<and> htmlContent (fst (handleViewModeChange typedMarkdownState Html)) = []
   \<and> htmlContent (fst (handleViewModeChange s Html)) = htmlContent s"
proof -
  have a: "viewMode typedMarkdownState = Markdown"
    by (simp add: typedMarkdownState_def markdownOnChangeText_def initialState_def Let_def)
  have b: "markdownContent typedMarkdownState = ''# T''"
    by (simp add: typedMarkdownState_def markdownOnChangeText_def initialState_def Let_def)
  have md: "convertMarkdownToHTML ''# T'' = ''<h1>T</h1>''"
    by code_simp
  have c: "content typedMarkdownState = ''<h1>T</h1>''"
    by (simp add: typedMarkdownState_def markdownOnChangeText_def Let_def md)
  have d: "convertMarkdownToHTML (markdownContent typedMarkdownState) = ''<h1>T</h1>''"
    by (simp only: b md)
  have g: "htmlContent (fst (handleViewModeChange s Html)) = htmlContent s" for s
    by (simp add: handleViewModeChange_def Let_def)
  have e: "viewMode (fst (handleViewModeChange typedMarkdownState Html)) = Html"
    by (simp add: handleViewModeChange_def a)
  have f: "htmlContent (fst (handleViewModeChange typedMarkdownState Html)) = []"
    by (simp add: g typedMarkdownState_def markdownOnChangeText_def initialState_def Let_def)
  from a b c d e f g show ?thesis by (intro conjI)
qed

text \<open>
  C4. A body with a backslash does not come back from the rich view, the HTML view and
  the rich view again as it was. The body is sent to the new page between the
  backticks of a template literal, after backticks and dollar signs have been escaped,
  but not backslashes: the page reads \<open>\n\<close> as a line break, and reports the changed
  content, which becomes the canonical content. A body without such characters is kept.
\<close>

theorem rich_html_rich_changes_backslash_body:
  "content (richState backslashBody ''C:new'') = backslashBody
   \<and> escapeTemplate backslashBody = backslashBody
   \<and> cookTemplate backslashBody = Cooked ''<p>C:\<newline>ew</p>''
   \<and> map_option (content \<circ> fst)
        (richHtmlRich ''Start typing...'' txt
           (richState backslashBody ''C:new'', hostWith backslashBody))
       = Some ''<p>C:\<newline>ew</p>''
   \<and> map_option (content \<circ> fst)
        (richHtmlRich ''Start typing...'' txt
           (richState ''<p>hello</p>'' ''hello'', hostWith ''<p>hello</p>''))
       = Some ''<p>hello</p>''"
proof -
  have a: "content (richState backslashBody ''C:new'') = backslashBody"
    by code_simp
  have b: "escapeTemplate backslashBody = backslashBody"
    by code_simp
  have c: "cookTemplate backslashBody = Cooked ''<p>C:\<newline>ew</p>''"
    by code_simp
  have d: "map_option (content \<circ> fst)
        (richHtmlRich ''Start typing...'' txt
           (richState backslashBody ''C:new'', hostWith backslashBody))
       = Some ''<p>C:\<newline>ew</p>''"
    by code_simp
  have e: "map_option (content \<circ> fst)
        (richHtmlRich ''Start typing...'' txt
           (richState ''<p>hello</p>'' ''hello'', hostWith ''<p>hello</p>''))
       = Some ''<p>hello</p>''"
    by code_simp
  from a b c d e show ?thesis by (intro conjI)
qed



section \<open>The ready notification\<close>

text \<open>
  C7 (amended). Every \<open>editorReady\<close> message, the first and a repeated one alike, sets
  the readiness flag, calls \<open>onEditorReady\<close> and has the \<open>editorReady\<close> case send the
  canonical content to the page once when that content is not empty and a WebView is
  mounted, and not at all otherwise. Content set with \<open>setContent\<close> before the page was
  ready is not sent at once; it is what the next \<open>editorReady\<close> sends. When the message
  is the first one, so that the readiness flag changes, the effect of lines 93-102 runs
  after the render and sends the last-rich-content cache as well, in the rich view and
  when that cache is not empty. A repeated \<open>editorReady\<close> leaves the state as it is, the
  effect does not run, and the \<open>editorReady\<close> case sends the content again.
\<close>

theorem ready_flushes_on_every_notification:
  "fst (handleWebViewMessage s EditorReadyMsg) = s\<lparr>editorReady := True\<rparr>
   \<and> snd (handleWebViewMessage s EditorReadyMsg)
       = OnEditorReady #
         (if content s \<noteq> [] \<and> webViewRef s
          then [InjectJavaScript (SetContent (escapeTemplate (content s)))] else [])
   \<and> setContentCount (snd (handleWebViewMessage s EditorReadyMsg))
       = (if content s \<noteq> [] \<and> webViewRef s then 1 else 0)
   \<and> snd (setContent (s\<lparr>editorReady := False\<rparr>) html) = []
   \<and> content (fst (setContent s html)) = html
   \<and> lastWysiwygContent (fst (setContent s html)) = html
   \<and> editorReady (fst (setContent s html)) = editorReady s
   \<and> effectAfter (s\<lparr>editorReady := False\<rparr>)
        (fst (handleWebViewMessage (s\<lparr>editorReady := False\<rparr>) EditorReadyMsg))
       = (if viewMode s = Wysiwyg \<and> lastWysiwygContent s \<noteq> [] \<and> webViewRef s
          then [InjectJavaScript (SetContent (escapeTemplate (lastWysiwygContent s)))] else [])
   \<and> effectAfter (s\<lparr>editorReady := True\<rparr>)
        (fst (handleWebViewMessage (s\<lparr>editorReady := True\<rparr>) EditorReadyMsg)) = []
   \<and> handleWebViewMessage (fst (handleWebViewMessage s EditorReadyMsg)) EditorReadyMsg
       = (fst (handleWebViewMessage s EditorReadyMsg),
          snd (handleWebViewMessage s EditorReadyMsg))"
proof -
  have a: "fst (handleWebViewMessage s EditorReadyMsg) = s\<lparr>editorReady := True\<rparr>"
    by simp
  have b: "snd (handleWebViewMessage s EditorReadyMsg)
       = OnEditorReady #
         (if content s \<noteq> [] \<and> webViewRef s
          then [InjectJavaScript (SetContent (escapeTemplate (content s)))] else [])"
    by (simp add: injectJavaScript_def)
  have c: "setContentCount (snd (handleWebViewMessage s EditorReadyMsg))
       = (if content s \<noteq> [] \<and> webViewRef s then 1 else 0)"
    by (simp add: injectJavaScript_def)
  have d: "snd (setContent (s\<lparr>editorReady := False\<rparr>) html) = []"
    by (simp add: setContent_def)
  have e: "content (fst (setContent s html)) = html"
    "lastWysiwygContent (fst (setContent s html)) = html"
    "editorReady (fst (setContent s html)) = editorReady s"
    by (simp_all add: setContent_def)
  have f: "effectAfter (s\<lparr>editorReady := False\<rparr>)
        (fst (handleWebViewMessage (s\<lparr>editorReady := False\<rparr>) EditorReadyMsg))
       = (if viewMode s = Wysiwyg \<and> lastWysiwygContent s \<noteq> [] \<and> webViewRef s
          then [InjectJavaScript (SetContent (escapeTemplate (lastWysiwygContent s)))] else [])"
    by (simp add: effectAfter_def syncEffect_def injectJavaScript_def)
  have g: "effectAfter (s\<lparr>editorReady := True\<rparr>)
        (fst (handleWebViewMessage (s\<lparr>editorReady := True\<rparr>) EditorReadyMsg)) = []"
    by (simp add: effectAfter_def)
  have h: "handleWebViewMessage (fst (handleWebViewMessage s EditorReadyMsg)) EditorReadyMsg
       = (fst (handleWebViewMessage s EditorReadyMsg),
          snd (handleWebViewMessage s EditorReadyMsg))"
    by (simp add: injectJavaScript_def)
  from a b c d e f g h show ?thesis by (intro conjI)
qed

text \<open>
  C7, as stated, fails for the content \<open><p>x</p>\<close> set before the page was ready: the
  first \<open>editorReady\<close> has it sent twice (by the \<open>editorReady\<close> case and by the effect),
  and a second \<open>editorReady\<close> has it sent again.
\<close>

theorem duplicate_ready_resends:
  "snd (messageStep pendingState EditorReadyMsg)
     = [OnEditorReady, InjectJavaScript (SetContent ''<p>x</p>''),
        InjectJavaScript (SetContent ''<p>x</p>'')]
   \<and> editorReady (fst (messageStep pendingState EditorReadyMsg))
   \<and> snd (messageStep (fst (messageStep pendingState EditorReadyMsg)) EditorReadyMsg)
     = [OnEditorReady, InjectJavaScript (SetContent ''<p>x</p>'')]
   \<and> setContentCount
       (snd (messageStep (fst (messageStep pendingState EditorReadyMsg)) EditorReadyMsg)) = 1"
proof -
  have a: "snd (messageStep pendingState EditorReadyMsg)
     = [OnEditorReady, InjectJavaScript (SetContent ''<p>x</p>''),
        InjectJavaScript (SetContent ''<p>x</p>'')]"
    by code_simp
  have b: "editorReady (fst (messageStep pendingState EditorReadyMsg))"
    by (simp add: messageStep_def render_def Let_def)
  have c: "snd (messageStep (fst (messageStep pendingState EditorReadyMsg)) EditorReadyMsg)
     = [OnEditorReady, InjectJavaScript (SetContent ''<p>x</p>'')]"
    by code_simp
  have d: "setContentCount
       (snd (messageStep (fst (messageStep pendingState EditorReadyMsg)) EditorReadyMsg)) = 1"
    by (simp only: c) simp
  from a b c d show ?thesis by (intro conjI)
qed

section \<open>Saving a document\<close>

text \<open>
  C6 (amended). A save sets \<open>lastModified\<close> of the record it writes to the clock reading
  it takes, whatever the record it replaces says: the new \<open>lastModified\<close> is not
  earlier than the old one exactly when the clock reading is not earlier than it (the
  code compares nothing). The record's \<open>createdAt\<close> is that of the open document when
  it has one, and the clock reading otherwise, so a later save keeps the \<open>createdAt\<close>
  of the first, also when the clock has been set back. This holds for \<open>handleSave\<close>
  of the editor screen, which writes the record under its key and keeps it as the open
  document, and for \<open>saveDocument\<close> of the document service. A save whose write of the
  document fails stores nothing; \<open>saveDocument\<close> succeeds also when the list of recent
  documents cannot be written, and leaves that list as it was.
\<close>

theorem save_stamps_clock_reading:
  "lastModified (documentToSave nowId now1 now2 scr) = now1
   \<and> (lastModified d \<le> lastModified (documentToSave nowId now1 now2 (scr\<lparr>document := Some d\<rparr>)))
       = (lastModified d \<le> now1)
   \<and> createdAt (documentToSave nowId now1 now2 (scr\<lparr>document := Some (d\<lparr>createdAt := Some c\<rparr>)\<rparr>))
       = Some c
   \<and> createdAt (documentToSave nowId now1 now2 (scr\<lparr>document := Some (d\<lparr>createdAt := None\<rparr>)\<rparr>))
       = Some now2
   \<and> createdAt (documentToSave nowId now1 now2 (scr\<lparr>document := None\<rparr>)) = Some now2
   \<and> document (fst (handleSave True nowId now1 now2 scr store))
       = Some (documentToSave nowId now1 now2 scr)
   \<and> snd (handleSave True nowId now1 now2 scr store)
         (''document_'' @ docId (documentToSave nowId now1 now2 scr))
       = Some (documentToSave nowId now1 now2 scr)
   \<and> handleSave False nowId now1 now2 scr store = (scr, store)
   \<and> createdAt (documentToSave nowId' now1' now2'
                  (fst (handleSave True nowId now1 now2 scr store)))
       = createdAt (documentToSave nowId now1 now2 scr)
   \<and> lastModified (serviceDocumentToSave now1 now2 d) = now1
   \<and> (lastModified d \<le> lastModified (serviceDocumentToSave now1 now2 d))
       = (lastModified d \<le> now1)
   \<and> createdAt (serviceDocumentToSave now1 now2 (d\<lparr>createdAt := Some c\<rparr>)) = Some c
   \<and> createdAt (serviceDocumentToSave now1 now2 (d\<lparr>createdAt := None\<rparr>)) = Some now2
   \<and> createdAt (serviceDocumentToSave now1' now2' (serviceDocumentToSave now1 now2 d))
       = createdAt (serviceDocumentToSave now1 now2 d)
   \<and> saveDocument True recentReadOk recentWriteOk now1 now2 d st
       = Inr (serviceDocumentToSave now1 now2 d,
              (fst st)(''document_'' @ docId d \<mapsto> serviceDocumentToSave now1 now2 d),
              updateRecentDocuments recentReadOk recentWriteOk (docId d) (snd st))
   \<and> saveDocument False recentReadOk recentWriteOk now1 now2 d st = Inl FailedToSaveDocument
   \<and> updateRecentDocuments recentReadOk False (docId d) (snd st) = snd st
   \<and> updateRecentDocuments True True (docId d) (snd st)
       = take 10 (docId d # removeAll (docId d) (snd st))
   \<and> updateRecentDocuments False True (docId d) (snd st) = [docId d]"
proof -
  have a: "lastModified (documentToSave nowId now1 now2 scr) = now1" for scr
    by (simp add: documentToSave_def)
  have b: "(lastModified d \<le> lastModified (documentToSave nowId now1 now2 (scr\<lparr>document := Some d\<rparr>)))
           = (lastModified d \<le> now1)"
    by (simp add: a)
  have c: "createdAt (documentToSave nowId now1 now2 (scr\<lparr>document := Some (d\<lparr>createdAt := Some c\<rparr>)\<rparr>))
           = Some c"
    "createdAt (documentToSave nowId now1 now2 (scr\<lparr>document := Some (d\<lparr>createdAt := None\<rparr>)\<rparr>))
           = Some now2"
    "createdAt (documentToSave nowId now1 now2 (scr\<lparr>document := None\<rparr>)) = Some now2"
    by (simp_all add: documentToSave_def)
  have e: "document (fst (handleSave True nowId now1 now2 scr store))
           = Some (documentToSave nowId now1 now2 scr)"
    "snd (handleSave True nowId now1 now2 scr store)
             (''document_'' @ docId (documentToSave nowId now1 now2 scr))
           = Some (documentToSave nowId now1 now2 scr)"
    "handleSave False nowId now1 now2 scr store = (scr, store)"
    by (simp_all add: handleSave_def Let_def)
  have f: "createdAt (documentToSave nowId' now1' now2'
                      (fst (handleSave True nowId now1 now2 scr store)))
           = createdAt (documentToSave nowId now1 now2 scr)"
    by (simp add: handleSave_def Let_def documentToSave_def split: option.splits)
  have g: "lastModified (serviceDocumentToSave now1 now2 d) = now1"
    by (simp add: serviceDocumentToSave_def)
  have h: "(lastModified d \<le> lastModified (serviceDocumentToSave now1 now2 d))
           = (lastModified d \<le> now1)"
    by (simp add: g)
  have i: "createdAt (serviceDocumentToSave now1 now2 (d\<lparr>createdAt := Some c\<rparr>)) = Some c"
    "createdAt (serviceDocumentToSave now1 now2 (d\<lparr>createdAt := None\<rparr>)) = Some now2"
    "createdAt (serviceDocumentToSave now1' now2' (serviceDocumentToSave now1 now2 d))
           = createdAt (serviceDocumentToSave now1 now2 d)"
    by (simp_all add: serviceDocumentToSave_def split: option.splits)
  have j: "saveDocument True recentReadOk recentWriteOk now1 now2 d st
           = Inr (serviceDocumentToSave now1 now2 d,
                  (fst st)(''document_'' @ docId d \<mapsto> serviceDocumentToSave now1 now2 d),
                  updateRecentDocuments recentReadOk recentWriteOk (docId d) (snd st))"
    "saveDocument False recentReadOk recentWriteOk now1 now2 d st = Inl FailedToSaveDocument"
    by (simp_all add: saveDocument_def Let_def)
  have k: "updateRecentDocuments recentReadOk False (docId d) (snd st) = snd st"
    by (simp add: updateRecentDocuments_def Let_def)
  have flt: "filter (\<lambda>i. i \<noteq> x) xs = removeAll x xs" for x :: string and xs
    by (induction xs) auto
  have l: "updateRecentDocuments True True (docId d) (snd st)
           = take 10 (docId d # removeAll (docId d) (snd st))"
    unfolding updateRecentDocuments_def getRecentDocumentsList_def Let_def flt by simp
  have m: "updateRecentDocuments False True (docId d) (snd st) = [docId d]"
    by (simp add: updateRecentDocuments_def getRecentDocumentsList_def Let_def)
  from a b c e f g h i j k l m show ?thesis by (intro conjI)
qed

theorem save_stamps_clock_reading_witness:
  "lastModified (documentToSave ''8'' 12 13 openScreen) = 12
   \<and> (lastModified savedDocument \<le> lastModified (documentToSave ''8'' 12 13 openScreen)) = True
   \<and> createdAt (documentToSave ''8'' 12 13 openScreen) = Some 3
   \<and> lastModified (serviceDocumentToSave 5 13 savedDocument) = 5
   \<and> (lastModified savedDocument \<le> lastModified (serviceDocumentToSave 5 13 savedDocument)) = False
   \<and> createdAt (serviceDocumentToSave 5 13 savedDocument) = Some 3
   \<and> saveDocument True True False 5 13 savedDocument (emptyStorage, [''1''])
       = Inr (serviceDocumentToSave 5 13 savedDocument,
              emptyStorage(''document_7'' \<mapsto> serviceDocumentToSave 5 13 savedDocument),
              [''1''])"
proof -
  have scr: "openScreen\<lparr>document := Some savedDocument\<rparr> = openScreen"
    by (simp add: openScreen_def)
  have doc: "savedDocument\<lparr>createdAt := Some 3\<rparr> = savedDocument"
    by (simp add: savedDocument_def)
  have lm: "lastModified savedDocument = 10" by (simp add: savedDocument_def)
  have did: "docId savedDocument = ''7''" by (simp add: savedDocument_def)
  note T = save_stamps_clock_reading
      [where nowId = "''8''" and ?now1.0 = 12 and ?now2.0 = 13 and scr = openScreen and c = 3
        and d = savedDocument
        and store = emptyStorage and nowId' = "''9''" and now1' = 20 and now2' = 21
        and st = "(emptyStorage, [''1''])" and recentReadOk = True and recentWriteOk = False]
  note U = save_stamps_clock_reading
      [where nowId = "''8''" and ?now1.0 = 5 and ?now2.0 = 13 and scr = openScreen and c = 3
        and d = savedDocument
        and store = emptyStorage and nowId' = "''9''" and now1' = 20 and now2' = 21
        and st = "(emptyStorage, [''1''])" and recentReadOk = True and recentWriteOk = False]
  from T have a: "lastModified (documentToSave ''8'' 12 13 openScreen) = 12"
    by (elim conjE)
  from T have "(lastModified savedDocument
      \<le> lastModified (documentToSave ''8'' 12 13 (openScreen\<lparr>document := Some savedDocument\<rparr>)))
      = (lastModified savedDocument \<le> 12)"
    by (elim conjE)
  then have b: "(lastModified savedDocument \<le> lastModified (documentToSave ''8'' 12 13 openScreen))
      = True"
    by (simp add: scr lm)
  from T have "createdAt (documentToSave ''8'' 12 13
      (openScreen\<lparr>document := Some (savedDocument\<lparr>createdAt := Some 3\<rparr>)\<rparr>)) = Some 3"
    by (elim conjE)
  then have c: "createdAt (documentToSave ''8'' 12 13 openScreen) = Some 3"
    by (simp only: scr doc)
  from U have d: "lastModified (serviceDocumentToSave 5 13 savedDocument) = 5"
    by (elim conjE)
  from U have "(lastModified savedDocument \<le> lastModified (serviceDocumentToSave 5 13 savedDocument))
      = (lastModified savedDocument \<le> 5)"
    by (elim conjE)
  then have e: "(lastModified savedDocument \<le> lastModified (serviceDocumentToSave 5 13 savedDocument))
      = False"
    by (simp add: lm)
  from U have "createdAt (serviceDocumentToSave 5 13 (savedDocument\<lparr>createdAt := Some 3\<rparr>)) = Some 3"
    by (elim conjE)
  then have f: "createdAt (serviceDocumentToSave 5 13 savedDocument) = Some 3"
    by (simp only: doc)
  from U have s1: "saveDocument True True False 5 13 savedDocument (emptyStorage, [''1''])
       = Inr (serviceDocumentToSave 5 13 savedDocument,
              (fst (emptyStorage, [''1'']))(''document_'' @ docId savedDocument
                 \<mapsto> serviceDocumentToSave 5 13 savedDocument),
              updateRecentDocuments True False (docId savedDocument) (snd (emptyStorage, [''1''])))"
    by (elim conjE)
  from U have s2: "updateRecentDocuments True False (docId savedDocument) (snd (emptyStorage, [''1'']))
       = snd (emptyStorage, [''1''])"
    by (elim conjE)
  have g: "saveDocument True True False 5 13 savedDocument (emptyStorage, [''1''])
       = Inr (serviceDocumentToSave 5 13 savedDocument,
              emptyStorage(''document_7'' \<mapsto> serviceDocumentToSave 5 13 savedDocument),
              [''1''])"
    unfolding s1 s2 by (simp add: did)
  from a b c d e f g show ?thesis by (intro conjI)
qed

text \<open>
  C6, as stated, fails when the clock reads 5 at the save of a document whose stored
  record says 10: the record written has the \<open>lastModified\<close> 5.
\<close>

theorem save_clock_reading_can_be_earlier:
  "document openScreen = Some savedDocument
   \<and> lastModified savedDocument = 10
   \<and> snd (handleSave True ''8'' 5 5 openScreen emptyStorage) ''document_7''
       = Some (documentToSave ''8'' 5 5 openScreen)
   \<and> lastModified (documentToSave ''8'' 5 5 openScreen) = 5
   \<and> lastModified (documentToSave ''8'' 5 5 openScreen) < lastModified savedDocument
   \<and> lastModified (serviceDocumentToSave 5 5 savedDocument) < lastModified savedDocument"
proof -
  have a: "document openScreen = Some savedDocument" by (simp add: openScreen_def)
  have b: "lastModified savedDocument = 10" by (simp add: savedDocument_def)
  have id: "docId (documentToSave ''8'' 5 5 openScreen) = ''7''"
    by (simp add: documentToSave_def openScreen_def savedDocument_def)
  have c: "snd (handleSave True ''8'' 5 5 openScreen emptyStorage) ''document_7''
       = Some (documentToSave ''8'' 5 5 openScreen)"
    by (simp add: handleSave_def Let_def id)
  have d: "lastModified (documentToSave ''8'' 5 5 openScreen) = 5"
    by (simp add: documentToSave_def)
  have e: "lastModified (documentToSave ''8'' 5 5 openScreen) < lastModified savedDocument"
    by (simp add: b d)
  have f: "lastModified (serviceDocumentToSave 5 5 savedDocument) < lastModified savedDocument"
    by (simp add: serviceDocumentToSave_def b)
  from a b c d e f show ?thesis by (intro conjI)
qed

end
